theory Spec2Isabelle
  imports Complex_Main
begin

section \<open>Values, errors and responses\<close>

text \<open>
  Strings are byte sequences: a string literal of the source is given by its UTF-8 bytes
  (ASCII characters are themselves), and a string of a request is well-formed Unicode.
  A number is an IEEE double: \<open>NaN\<close>, an infinity, or a finite value, which is given by the
  rational it denotes. The sign of zero is not kept (\<open>-0\<close> and \<open>0\<close> are equal in every
  comparison of the routes, and both are written \<open>0\<close> in a response).
\<close>

datatype jsnum = NaN | NegInfinity | Finite rat | PosInfinity

text \<open>
  The values of documents and of response bodies, as the handlers hold them: \<open>JNum\<close> is a
  finite number, and the numbers that are not finite have their own constructors. (When
  \<open>res.json\<close> writes a body, it writes a number that is not finite as \<open>null\<close>.)
\<close>

datatype json =
    JNull
  | JBool bool
  | JNum rat
  | JInfinity
  | JNegInfinity
  | JNaN
  | JStr string
  | JArr "json list"
  | JObj "(string \<times> json) list"

definition of_jsnum :: "jsnum \<Rightarrow> json" where
  "of_jsnum x =
     (case x of
        Finite q \<Rightarrow> JNum q
      | PosInfinity \<Rightarrow> JInfinity
      | NegInfinity \<Rightarrow> JNegInfinity
      | NaN \<Rightarrow> JNaN)"

text \<open>The number a value is, when it is one; the value may be missing.\<close>

definition as_number :: "json option \<Rightarrow> jsnum option" where
  "as_number v =
     (case v of
        Some (JNum q) \<Rightarrow> Some (Finite q)
      | Some JInfinity \<Rightarrow> Some PosInfinity
      | Some JNegInfinity \<Rightarrow> Some NegInfinity
      | Some JNaN \<Rightarrow> Some NaN
      | _ \<Rightarrow> None)"

text \<open>
  The rounding of a real value to a double, to the nearest with ties to even, as the
  arithmetic of JavaScript and of the store does it. For a value of magnitude \<open>a\<close>, the
  exponent \<open>e\<close> is that of its binade (\<open>2 ^ e \<le> a < 2 ^ (e + 1)\<close>), and not less than -1022,
  where the subnormal numbers begin; the doubles around the value are the multiples of
  \<open>u = 2 ^ (e - 52)\<close>, and the result is the nearest multiple. A magnitude of at least
  \<open>2 ^ 1024 - 2 ^ 970\<close>, half way between the largest double and \<open>2 ^ 1024\<close>, is rounded
  to an infinity.
\<close>

definition pow2 :: "int \<Rightarrow> rat" where
  "pow2 e = (if 0 \<le> e then 2 ^ nat e else 1 / 2 ^ nat (- e))"

definition round_half_even :: "rat \<Rightarrow> int" where
  "round_half_even q =
     (let f = \<lfloor>q\<rfloor>; r = q - of_int f in
      if r < 1 / 2 then f else if 1 / 2 < r then f + 1 else if even f then f else f + 1)"

text \<open>The number of binary digits of a natural number.\<close>

fun bit_length :: "nat \<Rightarrow> nat" where
  "bit_length n = (if n = 0 then 0 else Suc (bit_length (n div 2)))"

declare bit_length.simps [simp del]

text \<open>The exponent of the binade of a positive value.\<close>

definition ilog2 :: "rat \<Rightarrow> int" where
  "ilog2 a =
     (if 1 \<le> a then int (bit_length (nat \<lfloor>a\<rfloor>)) - 1
      else - int (bit_length (nat (\<lceil>1 / a\<rceil> - 1))))"

definition to_double :: "rat \<Rightarrow> jsnum" where
  "to_double x =
     (let a = \<bar>x\<bar> in
      if 2 ^ 1024 - 2 ^ 970 \<le> a then (if 0 < x then PosInfinity else NegInfinity)
      else
        let e = (if a < pow2 (- 1022) then - 1022 else ilog2 a);
            u = pow2 (e - 52);
            m = round_half_even (a / u)
        in Finite (if x < 0 then - (of_int m * u) else of_int m * u))"

text \<open>
  Aggregation expressions, as the handlers write them. \<open>Str s\<close> is a string in
  expression position: a field path or a variable when it starts with \<open>$\<close>, a literal
  otherwise.
\<close>

datatype expr =
    Lit json
  | Str string
  | Cond expr expr expr
  | Eq expr expr
  | Divide expr expr

datatype projection = Include | Compute expr

text \<open>
  The two pipelines of one stage that the handlers send: \<open>{$project: {...}}\<close> and
  \<open>{$group: {_id: e, f: {op: a}}}\<close> with one accumulator \<open>op\<close> on the operand \<open>a\<close>,
  written to the field \<open>f\<close>.
\<close>

datatype stage =
    Project "(string \<times> projection) list"
  | Group expr string string expr

text \<open>A JavaScript error object, as far as the handlers read it: \<open>err.code\<close> and \<open>err.message\<close>.\<close>

record js_error =
  err_name :: string
  err_code :: "nat option"
  err_message :: string

text \<open>The settled state of a promise: \<open>await\<close> returns the value or throws the error.\<close>

datatype 'a promise = Resolved 'a | Rejected js_error

record cookie =
  cookie_name :: string
  cookie_value :: string
  httpOnly :: bool
  sameSite :: string
  secure :: bool
  maxAge :: int

record response =
  status :: nat
  body :: json
  cookies :: "cookie list"

text \<open>\<open>res.status(c).json(b)\<close>; \<open>res.json(b)\<close> is \<open>send 200 b\<close>.\<close>

definition send :: "nat \<Rightarrow> json \<Rightarrow> response" where
  "send c b = \<lparr>status = c, body = b, cookies = []\<rparr>"

definition error_body :: "string \<Rightarrow> json" where
  "error_body m = JObj [(''error'', JStr m)]"

text \<open>The messages of the source, in UTF-8.\<close>

definition msg_potion_non_trouvee :: string where
  "msg_potion_non_trouvee = ''Potion non trouv'' @ [CHR 0xC3, CHR 0xA9] @ ''e''"

definition msg_potion_supprimee :: string where
  "msg_potion_supprimee = ''Potion supprim'' @ [CHR 0xC3, CHR 0xA9] @ ''e''"

section \<open>The catalog store behind the \<open>Potion\<close> model\<close>

text \<open>The comparison operators of a filter: \<open>$gte\<close> and \<open>$lte\<close>.\<close>

datatype cmp = Gte | Lte

text \<open>
  The calls a handler issues on a model. A handler returns its response together with
  the calls it made, in order, and the store it leaves behind.
\<close>

datatype store_call =
    FindById string
  | FindByIdAndUpdate string json
  | FindByIdAndDelete string
  | Save json
  | Find "(string \<times> (cmp \<times> jsnum) list) list"
  | Aggregate stage
  | SaveUser string

record catalog_store =
  potions :: "json list"
  fault :: "js_error option"

text \<open>
  The file \<open>potion.model.js\<close> (the schema) is not among the sources, so what it fixes is
  a parameter: the cast of a string to the type of \<open>_id\<close> (the value, or the error of
  a cast that fails), the validation of a payload at \<open>save\<close>, the cast of an update, and
  the identifier given to a new document.
\<close>

record potion_model =
  cast_id :: "string \<Rightarrow> js_error + string"
  validate_doc :: "json \<Rightarrow> js_error + (string \<times> json) list"
  cast_update :: "json \<Rightarrow> js_error + (string \<times> json) list"
  fresh_id :: "json list \<Rightarrow> string"

record 's outcome =
  reply :: response
  calls :: "store_call list"
  store_after :: 's

definition field :: "string \<Rightarrow> json \<Rightarrow> json option" where
  "field k d = (case d of JObj kvs \<Rightarrow> map_of kvs k | _ \<Rightarrow> None)"

definition has_id :: "string \<Rightarrow> json \<Rightarrow> bool" where
  "has_id oid d = (field ''_id'' d = Some (JStr oid))"

text \<open>
  \<open>Potion.findById(id)\<close>: the document, \<open>null\<close>, or a rejection. The identifier is cast
  before anything is sent to the server, and the error of the cast rejects the query.
\<close>

definition findById :: "potion_model \<Rightarrow> catalog_store \<Rightarrow> string \<Rightarrow> json option promise" where
  "findById M S i =
     (case cast_id M i of
        Inl e \<Rightarrow> Rejected e
      | Inr oid \<Rightarrow>
          (case fault S of
             Some e \<Rightarrow> Rejected e
           | None \<Rightarrow> Resolved (find (has_id oid) (potions S))))"

text \<open>
  The cast of the default \<open>_id\<close> type, an ObjectId: a string of 24 hexadecimal digits,
  read without regard to case; any other string is refused with Mongoose's \<open>CastError\<close>.
\<close>

definition cast_error :: "string \<Rightarrow> js_error" where
  "cast_error v =
     \<lparr>err_name = ''CastError'', err_code = None,
      err_message = ''Cast to ObjectId failed for value \"'' @ v @
        ''\" (type string) at path \"_id\" for model \"Potion\"''\<rparr>"

definition is_hex :: "char \<Rightarrow> bool" where
  "is_hex c = (c \<in> set ''0123456789abcdefABCDEF'')"

definition lower_hex :: "char \<Rightarrow> char" where
  "lower_hex c = (case map_of (zip ''ABCDEF'' ''abcdef'') c of Some l \<Rightarrow> l | None \<Rightarrow> c)"

definition cast_ObjectId :: "string \<Rightarrow> js_error + string" where
  "cast_ObjectId s =
     (if length s = 24 \<and> list_all is_hex s then Inr (map lower_hex s) else Inl (cast_error s))"

text \<open>
  An update without operators sets each of its fields: a field of the document is
  replaced where it stands, a new one is added at the end.
\<close>

fun set_field :: "string \<Rightarrow> json \<Rightarrow> (string \<times> json) list \<Rightarrow> (string \<times> json) list" where
  "set_field k v [] = [(k, v)]"
| "set_field k v ((k', v') # kvs) =
     (if k' = k then (k, v) # kvs else (k', v') # set_field k v kvs)"

definition merge_fields :: "json \<Rightarrow> (string \<times> json) list \<Rightarrow> json" where
  "merge_fields d upd =
     (case d of
        JObj kvs \<Rightarrow> JObj (foldl (\<lambda>acc (k, v). set_field k v acc) kvs upd)
      | _ \<Rightarrow> d)"

fun replace_first :: "('a \<Rightarrow> bool) \<Rightarrow> 'a \<Rightarrow> 'a list \<Rightarrow> 'a list" where
  "replace_first P y [] = []"
| "replace_first P y (x # xs) = (if P x then y # xs else x # replace_first P y xs)"

fun remove_first :: "('a \<Rightarrow> bool) \<Rightarrow> 'a list \<Rightarrow> 'a list" where
  "remove_first P [] = []"
| "remove_first P (x # xs) = (if P x then xs else x # remove_first P xs)"

definition immutable_id_error :: js_error where
  "immutable_id_error =
     \<lparr>err_name = ''MongoServerError'', err_code = Some 66,
      err_message = ''Performing an update on the path '' @ [CHR 0x27] @ ''_id'' @ [CHR 0x27] @
        '' would modify the immutable field '' @ [CHR 0x27] @ ''_id'' @ [CHR 0x27]\<rparr>"

text \<open>
  \<open>Potion.findByIdAndUpdate(id, update, {new: true})\<close>: the updated document, or \<open>null\<close>
  when no document has the identifier. The identifier and the update are cast before the
  command is sent; the server refuses a change of \<open>_id\<close>.
\<close>

definition findByIdAndUpdate ::
  "potion_model \<Rightarrow> catalog_store \<Rightarrow> string \<Rightarrow> json \<Rightarrow> json option promise \<times> catalog_store" where
  "findByIdAndUpdate M S i payload =
     (case cast_id M i of
        Inl e \<Rightarrow> (Rejected e, S)
      | Inr oid \<Rightarrow>
          (case cast_update M payload of
             Inl e \<Rightarrow> (Rejected e, S)
           | Inr upd \<Rightarrow>
               (case fault S of
                  Some e \<Rightarrow> (Rejected e, S)
                | None \<Rightarrow>
                    (case find (has_id oid) (potions S) of
                       None \<Rightarrow> (Resolved None, S)
                     | Some d \<Rightarrow>
                         (if map_of upd ''_id'' \<notin> {None, Some (JStr oid)}
                          then (Rejected immutable_id_error, S)
                          else let d' = merge_fields d upd
                               in (Resolved (Some d'),
                                   S\<lparr>potions := replace_first (has_id oid) d' (potions S)\<rparr>))))))"

text \<open>\<open>Potion.findByIdAndDelete(id)\<close>: the deleted document, or \<open>null\<close>.\<close>

definition findByIdAndDelete ::
  "potion_model \<Rightarrow> catalog_store \<Rightarrow> string \<Rightarrow> json option promise \<times> catalog_store" where
  "findByIdAndDelete M S i =
     (case cast_id M i of
        Inl e \<Rightarrow> (Rejected e, S)
      | Inr oid \<Rightarrow>
          (case fault S of
             Some e \<Rightarrow> (Rejected e, S)
           | None \<Rightarrow>
               (case find (has_id oid) (potions S) of
                  None \<Rightarrow> (Resolved None, S)
                | Some d \<Rightarrow>
                    (Resolved (Some d), S\<lparr>potions := remove_first (has_id oid) (potions S)\<rparr>))))"

definition duplicate_key_error :: "string \<Rightarrow> js_error" where
  "duplicate_key_error k =
     \<lparr>err_name = ''MongoServerError'', err_code = Some 11000,
      err_message = ''E11000 duplicate key error dup key: '' @ k\<rparr>"

text \<open>
  \<open>new Potion(body)\<close> followed by \<open>save()\<close>: the schema validates the payload before the
  insert is sent; a document without \<open>_id\<close> is given a fresh one; the server refuses a
  second document with the same \<open>_id\<close>.
\<close>

definition save_potion ::
  "potion_model \<Rightarrow> catalog_store \<Rightarrow> json \<Rightarrow> json promise \<times> catalog_store" where
  "save_potion M S payload =
     (case validate_doc M payload of
        Inl e \<Rightarrow> (Rejected e, S)
      | Inr kvs \<Rightarrow>
          (let d = (case map_of kvs ''_id'' of
                      None \<Rightarrow> JObj ((''_id'', JStr (fresh_id M (potions S))) # kvs)
                    | Some _ \<Rightarrow> JObj kvs)
           in case fault S of
                Some e \<Rightarrow> (Rejected e, S)
              | None \<Rightarrow>
                  (if field ''_id'' d \<in> set (map (\<lambda>x. field ''_id'' x) (potions S))
                   then (Rejected (duplicate_key_error ''_id''), S)
                   else (Resolved d, S\<lparr>potions := potions S @ [d]\<rparr>))))"

section \<open>The session guard\<close>

text \<open>
  Modelled from the spec: the file \<open>middleware.js\<close> (\<open>authMiddleware\<close>) is not among the
  sources. The spec's \<open>authenticate(request)\<close> extracts the session cookie and verifies its
  signature and expiry; on any failure (missing, malformed, expired, bad signature) the
  guarded operation is rejected with Unauthorized (401) before the service logic is
  reached; on success the verified identity is handed to the guarded operation. The
  verification of a token (\<open>None\<close> on failure) and the body of the rejection are
  parameters.
\<close>

record auth_config =
  cookie_key :: string
  verify_token :: "string \<Rightarrow> json option"
  unauthorized_body :: json

definition authMiddleware ::
  "auth_config \<Rightarrow> (string \<times> string) list \<Rightarrow> 's \<Rightarrow> (json \<Rightarrow> 's outcome) \<Rightarrow> 's outcome" where
  "authMiddleware A req_cookies S next_handler =
     (case map_of req_cookies (cookie_key A) of
        None \<Rightarrow> \<lparr>reply = send 401 (unauthorized_body A), calls = [], store_after = S\<rparr>
      | Some token \<Rightarrow>
          (case verify_token A token of
             None \<Rightarrow> \<lparr>reply = send 401 (unauthorized_body A), calls = [], store_after = S\<rparr>
           | Some user \<Rightarrow> next_handler user))"

section \<open>The potion routes\<close>

text \<open>\<open>router.get('/:id')\<close>\<close>

definition router_get_id ::
  "potion_model \<Rightarrow> catalog_store \<Rightarrow> string \<Rightarrow> catalog_store outcome" where
  "router_get_id M S i =
     \<lparr>reply =
        (case findById M S i of
           Resolved None \<Rightarrow> send 404 (error_body msg_potion_non_trouvee)
         | Resolved (Some potion) \<Rightarrow> send 200 potion
         | Rejected err \<Rightarrow> send 500 (error_body (err_message err))),
      calls = [FindById i],
      store_after = S\<rparr>"

text \<open>\<open>router.post('/', authMiddleware, ...)\<close>\<close>

definition create_potion ::
  "potion_model \<Rightarrow> catalog_store \<Rightarrow> json \<Rightarrow> catalog_store outcome" where
  "create_potion M S req_body =
     (case save_potion M S req_body of
        (Resolved savedPotion, S') \<Rightarrow>
          \<lparr>reply = send 201 savedPotion, calls = [Save req_body], store_after = S'\<rparr>
      | (Rejected err, S') \<Rightarrow>
          \<lparr>reply = send 400 (error_body (err_message err)),
           calls = [Save req_body], store_after = S'\<rparr>)"

definition router_post_root ::
  "auth_config \<Rightarrow> potion_model \<Rightarrow> catalog_store \<Rightarrow> (string \<times> string) list \<Rightarrow> json \<Rightarrow>
   catalog_store outcome" where
  "router_post_root A M S req_cookies req_body =
     authMiddleware A req_cookies S (\<lambda>user. create_potion M S req_body)"

text \<open>\<open>router.post('/:id', authMiddleware, ...)\<close>\<close>

definition update_potion ::
  "potion_model \<Rightarrow> catalog_store \<Rightarrow> string \<Rightarrow> json \<Rightarrow> catalog_store outcome" where
  "update_potion M S i req_body =
     (case findByIdAndUpdate M S i req_body of
        (Resolved None, S') \<Rightarrow>
          \<lparr>reply = send 404 (error_body msg_potion_non_trouvee),
           calls = [FindByIdAndUpdate i req_body], store_after = S'\<rparr>
      | (Resolved (Some updatedPotion), S') \<Rightarrow>
          \<lparr>reply = send 200 updatedPotion,
           calls = [FindByIdAndUpdate i req_body], store_after = S'\<rparr>
      | (Rejected err, S') \<Rightarrow>
          \<lparr>reply = send 500 (error_body (err_message err)),
           calls = [FindByIdAndUpdate i req_body], store_after = S'\<rparr>)"

definition router_post_id ::
  "auth_config \<Rightarrow> potion_model \<Rightarrow> catalog_store \<Rightarrow> (string \<times> string) list \<Rightarrow> string \<Rightarrow> json \<Rightarrow>
   catalog_store outcome" where
  "router_post_id A M S req_cookies i req_body =
     authMiddleware A req_cookies S (\<lambda>user. update_potion M S i req_body)"

text \<open>\<open>router.delete('/:id', authMiddleware, ...)\<close>\<close>

definition delete_potion ::
  "potion_model \<Rightarrow> catalog_store \<Rightarrow> string \<Rightarrow> catalog_store outcome" where
  "delete_potion M S i =
     (case findByIdAndDelete M S i of
        (Resolved None, S') \<Rightarrow>
          \<lparr>reply = send 404 (error_body msg_potion_non_trouvee),
           calls = [FindByIdAndDelete i], store_after = S'\<rparr>
      | (Resolved (Some deleted), S') \<Rightarrow>
          \<lparr>reply = send 200 (JObj [(''message'', JStr msg_potion_supprimee)]),
           calls = [FindByIdAndDelete i], store_after = S'\<rparr>
      | (Rejected err, S') \<Rightarrow>
          \<lparr>reply = send 500 (error_body (err_message err)),
           calls = [FindByIdAndDelete i], store_after = S'\<rparr>)"

definition router_delete_id ::
  "auth_config \<Rightarrow> potion_model \<Rightarrow> catalog_store \<Rightarrow> (string \<times> string) list \<Rightarrow> string \<Rightarrow>
   catalog_store outcome" where
  "router_delete_id A M S req_cookies i =
     authMiddleware A req_cookies S (\<lambda>user. delete_potion M S i)"

section \<open>Strings and numbers of the request\<close>

text \<open>
  The white space of JavaScript (\<open>\s\<close> in a regular expression, and what \<open>parseFloat\<close>
  skips): U+0009 to U+000D, U+0020, U+00A0, U+1680, U+2000 to U+200A, U+2028, U+2029,
  U+202F, U+205F, U+3000 and U+FEFF, here by their UTF-8 bytes.
\<close>

definition is_ws :: "string \<Rightarrow> bool" where
  "is_ws bs =
     (let ns = map (of_char :: char \<Rightarrow> nat) bs in
      ns \<in> set [[9], [10], [11], [12], [13], [32], [0xC2, 0xA0], [0xE1, 0x9A, 0x80],
                 [0xE2, 0x80, 0xA8], [0xE2, 0x80, 0xA9], [0xE2, 0x80, 0xAF],
                 [0xE2, 0x81, 0x9F], [0xE3, 0x80, 0x80], [0xEF, 0xBB, 0xBF]]
      \<or> (length ns = 3 \<and> take 2 ns = [0xE2, 0x80] \<and> 0x80 \<le> ns ! 2 \<and> ns ! 2 \<le> 0x8A))"

text \<open>The number of bytes of the white-space character a string starts (ends) with, or 0.\<close>

definition ws_start :: "string \<Rightarrow> nat" where
  "ws_start s =
     (if is_ws (take 1 s) then 1 else if is_ws (take 2 s) then 2
      else if is_ws (take 3 s) then 3 else 0)"

definition ws_end :: "string \<Rightarrow> nat" where
  "ws_end s =
     (let n = length s in
      if is_ws (drop (n - 1) s) then 1 else if is_ws (drop (n - 2) s) then 2
      else if is_ws (drop (n - 3) s) then 3 else 0)"

function ltrim :: "string \<Rightarrow> string" where
  "ltrim s = (if s = [] \<or> ws_start s = 0 then s else ltrim (drop (ws_start s) s))"
  by pat_completeness auto
termination
  by (relation "measure length") auto

function rtrim :: "string \<Rightarrow> string" where
  "rtrim s = (if s = [] \<or> ws_end s = 0 then s else rtrim (take (length s - ws_end s) s))"
  by pat_completeness auto
termination
  by (relation "measure length") auto

declare ltrim.simps [simp del] rtrim.simps [simp del]

text \<open>\<open>trim\<close> of validator.js, with no character set given: \<open>rtrim(ltrim(str))\<close>.\<close>

definition trim :: "string \<Rightarrow> string" where
  "trim s = rtrim (ltrim s)"

definition is_digit :: "char \<Rightarrow> bool" where
  "is_digit c = (c \<in> set ''0123456789'')"

definition digits_val :: "string \<Rightarrow> nat" where
  "digits_val ds = foldl (\<lambda>n c. 10 * n + (of_char c - 48)) 0 ds"

text \<open>The value of an exponent part \<open>e\<close>, \<open>e+\<close> or \<open>e-\<close> followed by digits; 0 when there is none.\<close>

definition exponent_of :: "string \<Rightarrow> int" where
  "exponent_of r =
     (case r of
        [] \<Rightarrow> 0
      | c # r' \<Rightarrow>
          (if c = CHR ''e'' \<or> c = CHR ''E'' then
             (let neg = (take 1 r' = ''-'');
                  ds = takeWhile is_digit (if take 1 r' = ''-'' \<or> take 1 r' = ''+'' then drop 1 r' else r')
              in if ds = [] then 0
                 else if neg then - int (digits_val ds) else int (digits_val ds))
           else 0))"

definition scale10 :: "rat \<Rightarrow> int \<Rightarrow> rat" where
  "scale10 m e = (if 0 \<le> e then m * 10 ^ nat e else m / 10 ^ nat (- e))"

text \<open>
  The longest prefix that is an unsigned \<open>StrDecimalLiteral\<close>: \<open>Infinity\<close>, or digits with
  an optional fraction and an optional exponent, or a fraction that starts with the dot.
  What follows the prefix is not read. The result is the double nearest to the decimal
  value of the prefix.
\<close>

definition parse_unsigned :: "string \<Rightarrow> jsnum" where
  "parse_unsigned s =
     (if take 8 s = ''Infinity'' then PosInfinity
      else
        let ip = takeWhile is_digit s;
            r1 = dropWhile is_digit s;
            dot = (take 1 r1 = ''.'');
            fp = (if dot then takeWhile is_digit (drop 1 r1) else []);
            r2 = (if dot then dropWhile is_digit (drop 1 r1) else r1)
        in if ip = [] \<and> fp = [] then NaN
           else to_double (scale10
                  (of_nat (digits_val ip) + of_nat (digits_val fp) / 10 ^ length fp)
                  (exponent_of r2)))"

definition negate :: "jsnum \<Rightarrow> jsnum" where
  "negate x =
     (case x of NaN \<Rightarrow> NaN | PosInfinity \<Rightarrow> NegInfinity | NegInfinity \<Rightarrow> PosInfinity
      | Finite q \<Rightarrow> Finite (- q))"

definition parseFloat_string :: "string \<Rightarrow> jsnum" where
  "parseFloat_string s =
     (let t = ltrim s in
      if take 1 t = ''-'' then negate (parse_unsigned (drop 1 t))
      else if take 1 t = ''+'' then parse_unsigned (drop 1 t)
      else parse_unsigned t)"

text \<open>
  \<open>parseFloat(req.query.x)\<close>: a parameter that is absent is \<open>undefined\<close>, which
  \<open>parseFloat\<close> reads as the string \<open>undefined\<close>.
\<close>

definition parseFloat :: "string option \<Rightarrow> jsnum" where
  "parseFloat q = parseFloat_string (case q of None \<Rightarrow> ''undefined'' | Some s \<Rightarrow> s)"

definition isNaN :: "jsnum \<Rightarrow> bool" where
  "isNaN x = (x = NaN)"

section \<open>Filtered listing\<close>

text \<open>
  The comparison of two numbers in a filter of the store: \<open>NaN\<close> equals \<open>NaN\<close> and is not
  comparable with any other number.
\<close>

fun num_le :: "jsnum \<Rightarrow> jsnum \<Rightarrow> bool" where
  "num_le NaN b = (b = NaN)"
| "num_le _ NaN = False"
| "num_le NegInfinity _ = True"
| "num_le _ NegInfinity = False"
| "num_le _ PosInfinity = True"
| "num_le PosInfinity _ = False"
| "num_le (Finite a) (Finite b) = (a \<le> b)"

text \<open>
  A comparison holds of a field that is a number; a document without the field, or with
  a value of another type, does not match (fields are compared as scalars).
\<close>

definition cond_holds :: "json option \<Rightarrow> cmp \<times> jsnum \<Rightarrow> bool" where
  "cond_holds v c =
     (case as_number v of
        Some x \<Rightarrow> (case c of (Gte, b) \<Rightarrow> num_le b x | (Lte, b) \<Rightarrow> num_le x b)
      | None \<Rightarrow> False)"

definition matches :: "(string \<times> (cmp \<times> jsnum) list) list \<Rightarrow> json \<Rightarrow> bool" where
  "matches query d = list_all (\<lambda>(k, conds). list_all (cond_holds (field k d)) conds) query"

text \<open>\<open>Potion.find(query)\<close>\<close>

definition find_potions ::
  "catalog_store \<Rightarrow> (string \<times> (cmp \<times> jsnum) list) list \<Rightarrow> json list promise" where
  "find_potions S query =
     (case fault S of
        Some e \<Rightarrow> Rejected e
      | None \<Rightarrow> Resolved (filter (matches query) (potions S)))"

text \<open>\<open>router.get('/price-range')\<close>\<close>

definition price_query ::
  "string option \<Rightarrow> string option \<Rightarrow> (string \<times> (cmp \<times> jsnum) list) list" where
  "price_query qmin qmax =
     (let min = parseFloat qmin;
          max = parseFloat qmax;
          priceFilter = (if \<not> isNaN min then [(Gte, min)] else []) @
                        (if \<not> isNaN max then [(Lte, max)] else [])
      in if length priceFilter > 0 then [(''price'', priceFilter)] else [])"

definition router_get_price_range ::
  "catalog_store \<Rightarrow> string option \<Rightarrow> string option \<Rightarrow> catalog_store outcome" where
  "router_get_price_range S qmin qmax =
     (let query = price_query qmin qmax in
      \<lparr>reply =
         (case find_potions S query of
            Resolved ps \<Rightarrow> send 200 (JArr ps)
          | Rejected err \<Rightarrow> send 500 (error_body (err_message err))),
       calls = [Find query],
       store_after = S\<rparr>)"

section \<open>The aggregation engine of the store\<close>

text \<open>
  What the server does with the pipelines the analytics routes send. A string that
  starts with \<open>$\<close> names a field path, or a variable when it starts with \<open>$$\<close>. A path
  is split at its dots; the server refuses a path with an empty name (so also one that
  ends with a dot), a name that starts with \<open>$\<close> and a name with a null byte. Of the
  variables, \<open>ROOT\<close>, \<open>CURRENT\<close> and \<open>REMOVE\<close> are modelled; a reference to any other name
  is refused as an undefined variable.
\<close>

fun split_on :: "char \<Rightarrow> string \<Rightarrow> string list" where
  "split_on c [] = [[]]"
| "split_on c (x # xs) =
     (if x = c then [] # split_on c xs
      else (case split_on c xs of w # ws \<Rightarrow> (x # w) # ws | [] \<Rightarrow> [[x]]))"

definition valid_name :: "string \<Rightarrow> bool" where
  "valid_name n = (n \<noteq> [] \<and> take 1 n \<noteq> ''$'' \<and> CHR 0x00 \<notin> set n)"

definition field_path_error :: "string \<Rightarrow> js_error" where
  "field_path_error s =
     \<lparr>err_name = ''MongoServerError'', err_code = Some 16410,
      err_message = ''Invalid field path: '' @ s\<rparr>"

definition undefined_variable_error :: "string \<Rightarrow> js_error" where
  "undefined_variable_error v =
     \<lparr>err_name = ''MongoServerError'', err_code = Some 17276,
      err_message = ''Use of undefined variable: '' @ v\<rparr>"

datatype target = Root "string list" | Removed

definition parse_ref :: "string \<Rightarrow> js_error + target" where
  "parse_ref s =
     (if take 2 s = ''$$'' then
        (let parts = split_on (CHR ''.'') (drop 2 s); v = hd parts; path = tl parts in
         if v \<notin> {''ROOT'', ''CURRENT'', ''REMOVE''} then Inl (undefined_variable_error v)
         else if \<not> list_all valid_name path then Inl (field_path_error s)
         else if v = ''REMOVE'' then Inr Removed else Inr (Root path))
      else
        (let path = split_on (CHR ''.'') (drop 1 s) in
         if list_all valid_name path then Inr (Root path) else Inl (field_path_error s)))"

text \<open>
  The value of a path in a document, \<open>None\<close> when it is missing. On the way down an
  embedded document is entered; an array yields the array of the values found in those
  of its elements that are documents; any other value ends the path.
\<close>

fun eval_path :: "string list \<Rightarrow> json \<Rightarrow> json option"
  and eval_path_array :: "string list \<Rightarrow> json list \<Rightarrow> json list" where
  "eval_path [] v = Some v"
| "eval_path (k # ks) (JObj kvs) =
     (case map_of kvs k of
        None \<Rightarrow> None
      | Some v \<Rightarrow>
          (if ks = [] then Some v
           else (case v of
                   JObj kvs' \<Rightarrow> eval_path ks v
                 | JArr xs \<Rightarrow> Some (JArr (eval_path_array ks xs))
                 | _ \<Rightarrow> None)))"
| "eval_path (k # ks) _ = None"
| "eval_path_array ks [] = []"
| "eval_path_array ks (x # xs) =
     (case x of
        JObj kvs \<Rightarrow> (case eval_path ks x of None \<Rightarrow> [] | Some v \<Rightarrow> [v])
      | _ \<Rightarrow> []) @ eval_path_array ks xs"

definition truthy :: "json option \<Rightarrow> bool" where
  "truthy v = (v \<notin> {None, Some JNull, Some (JBool False), Some (JNum 0)})"

definition nullish :: "json option \<Rightarrow> bool" where
  "nullish v = (v = None \<or> v = Some JNull)"

definition divide_by_zero_error :: js_error where
  "divide_by_zero_error =
     \<lparr>err_name = ''MongoServerError'', err_code = Some 16608,
      err_message = ''can'' @ [CHR 0x27] @ ''t $divide by zero''\<rparr>"

definition divide_type_error :: js_error where
  "divide_type_error =
     \<lparr>err_name = ''MongoServerError'', err_code = Some 16609,
      err_message = ''$divide only supports numeric types''\<rparr>"

text \<open>
  The quotient of two doubles, the divisor not zero: that of two finite numbers is
  rounded, and overflows to an infinity.
\<close>

definition divide_doubles :: "jsnum \<Rightarrow> jsnum \<Rightarrow> jsnum" where
  "divide_doubles x y =
     (case (x, y) of
        (Finite a, Finite b) \<Rightarrow> to_double (a / b)
      | (Finite a, PosInfinity) \<Rightarrow> Finite 0
      | (Finite a, NegInfinity) \<Rightarrow> Finite 0
      | (PosInfinity, Finite b) \<Rightarrow> (if 0 < b then PosInfinity else NegInfinity)
      | (NegInfinity, Finite b) \<Rightarrow> (if 0 < b then NegInfinity else PosInfinity)
      | _ \<Rightarrow> NaN)"

text \<open>
  \<open>$divide\<close>: the quotient of two numbers, an error when the divisor is zero; \<open>null\<close> when
  an operand is \<open>null\<close> or missing; an error for any other operand.
\<close>

definition divide_values :: "json option \<Rightarrow> json option \<Rightarrow> js_error + json option" where
  "divide_values x y =
     (case (as_number x, as_number y) of
        (Some a, Some b) \<Rightarrow>
          (if b = Finite 0 then Inl divide_by_zero_error
           else Inr (Some (of_jsnum (divide_doubles a b))))
      | _ \<Rightarrow> (if nullish x \<or> nullish y then Inr (Some JNull) else Inl divide_type_error))"

fun eval_expr :: "expr \<Rightarrow> json \<Rightarrow> js_error + json option" where
  "eval_expr (Lit v) d = Inr (Some v)"
| "eval_expr (Str s) d =
     (if take 1 s = ''$'' then
        (case parse_ref s of
           Inl e \<Rightarrow> Inl e
         | Inr Removed \<Rightarrow> Inr None
         | Inr (Root p) \<Rightarrow> Inr (eval_path p d))
      else Inr (Some (JStr s)))"
| "eval_expr (Cond c t e) d =
     (case eval_expr c d of
        Inl err \<Rightarrow> Inl err
      | Inr v \<Rightarrow> (if truthy v then eval_expr t d else eval_expr e d))"
| "eval_expr (Eq a b) d =
     (case eval_expr a d of
        Inl err \<Rightarrow> Inl err
      | Inr x \<Rightarrow> (case eval_expr b d of Inl err \<Rightarrow> Inl err | Inr y \<Rightarrow> Inr (Some (JBool (x = y)))))"
| "eval_expr (Divide a b) d =
     (case eval_expr a d of
        Inl err \<Rightarrow> Inl err
      | Inr x \<Rightarrow> (case eval_expr b d of Inl err \<Rightarrow> Inl err | Inr y \<Rightarrow> divide_values x y))"

text \<open>The error the server finds when it parses an expression, before it reads a document.\<close>

fun check_expr :: "expr \<Rightarrow> js_error option" where
  "check_expr (Lit v) = None"
| "check_expr (Str s) =
     (if take 1 s = ''$'' then (case parse_ref s of Inl e \<Rightarrow> Some e | Inr _ \<Rightarrow> None) else None)"
| "check_expr (Cond c t e) =
     (case check_expr c of Some x \<Rightarrow> Some x
      | None \<Rightarrow> (case check_expr t of Some x \<Rightarrow> Some x | None \<Rightarrow> check_expr e))"
| "check_expr (Eq a b) = (case check_expr a of Some x \<Rightarrow> Some x | None \<Rightarrow> check_expr b)"
| "check_expr (Divide a b) = (case check_expr a of Some x \<Rightarrow> Some x | None \<Rightarrow> check_expr b)"

fun check_projection :: "(string \<times> projection) list \<Rightarrow> js_error option" where
  "check_projection [] = None"
| "check_projection ((k, Include) # ps) = check_projection ps"
| "check_projection ((k, Compute e) # ps) =
     (case check_expr e of Some x \<Rightarrow> Some x | None \<Rightarrow> check_projection ps)"

text \<open>
  \<open>$project\<close>: \<open>_id\<close> is kept, an included field is copied when the document has it, a
  computed field is written unless its value is missing.
\<close>

fun project_fields :: "(string \<times> projection) list \<Rightarrow> json \<Rightarrow> js_error + (string \<times> json) list" where
  "project_fields [] d = Inr []"
| "project_fields ((k, Include) # ps) d =
     (case project_fields ps d of
        Inl err \<Rightarrow> Inl err
      | Inr kvs \<Rightarrow> Inr ((case field k d of None \<Rightarrow> [] | Some v \<Rightarrow> [(k, v)]) @ kvs))"
| "project_fields ((k, Compute e) # ps) d =
     (case eval_expr e d of
        Inl err \<Rightarrow> Inl err
      | Inr v \<Rightarrow>
          (case project_fields ps d of
             Inl err \<Rightarrow> Inl err
           | Inr kvs \<Rightarrow> Inr ((case v of None \<Rightarrow> [] | Some w \<Rightarrow> [(k, w)]) @ kvs)))"

definition project_doc :: "(string \<times> projection) list \<Rightarrow> json \<Rightarrow> js_error + json" where
  "project_doc ps d =
     (case project_fields ps d of
        Inl err \<Rightarrow> Inl err
      | Inr kvs \<Rightarrow>
          Inr (JObj ((case field ''_id'' d of None \<Rightarrow> [] | Some i \<Rightarrow> [(''_id'', i)]) @ kvs)))"

text \<open>The results of a function on every document, or the first error.\<close>

fun map_ok :: "('a \<Rightarrow> js_error + 'b) \<Rightarrow> 'a list \<Rightarrow> js_error + 'b list" where
  "map_ok f [] = Inr []"
| "map_ok f (x # xs) =
     (case f x of
        Inl err \<Rightarrow> Inl err
      | Inr y \<Rightarrow> (case map_ok f xs of Inl err \<Rightarrow> Inl err | Inr ys \<Rightarrow> Inr (y # ys)))"

text \<open>
  \<open>$group\<close>: the state of the accumulator of a group is the sum and the number of the
  finite numbers seen; a value that is not a number is skipped. A missing key is the
  key \<open>null\<close>. The sum is kept exact, as the server keeps a sum of integers, which is what
  a count is; the rounding of a sum of doubles that are not integers, and summands that
  are not finite, are left out.
\<close>

definition accumulate :: "json option \<Rightarrow> rat \<times> nat \<Rightarrow> rat \<times> nat" where
  "accumulate v a = (case v of Some (JNum x) \<Rightarrow> (fst a + x, Suc (snd a)) | _ \<Rightarrow> a)"

fun bump :: "json \<Rightarrow> json option \<Rightarrow> (json \<times> rat \<times> nat) list \<Rightarrow> (json \<times> rat \<times> nat) list" where
  "bump k v [] = [(k, accumulate v (0, 0))]"
| "bump k v ((k', a) # gs) =
     (if k' = k then (k', accumulate v a) # gs else (k', a) # bump k v gs)"

definition group_key :: "json option \<Rightarrow> json" where
  "group_key v = (case v of None \<Rightarrow> JNull | Some k \<Rightarrow> k)"

fun group_docs ::
  "expr \<Rightarrow> expr \<Rightarrow> json list \<Rightarrow> (json \<times> rat \<times> nat) list \<Rightarrow> js_error + (json \<times> rat \<times> nat) list" where
  "group_docs ie oe [] gs = Inr gs"
| "group_docs ie oe (d # ds) gs =
     (case eval_expr ie d of
        Inl err \<Rightarrow> Inl err
      | Inr k \<Rightarrow>
          (case eval_expr oe d of
             Inl err \<Rightarrow> Inl err
           | Inr v \<Rightarrow> group_docs ie oe ds (bump (group_key k) v gs)))"

definition unknown_group_operator :: "string \<Rightarrow> js_error" where
  "unknown_group_operator op =
     \<lparr>err_name = ''MongoServerError'', err_code = Some 15952,
      err_message = ''unknown group operator '' @ [CHR 0x27] @ op @ [CHR 0x27]\<rparr>"

text \<open>
  The accumulators the routes can ask for are \<open>$sum\<close> and \<open>$avg\<close>; the others of the server
  are not modelled, and a key that is no operator of the server is refused.
\<close>

definition group_output :: "string \<Rightarrow> string \<Rightarrow> json \<times> rat \<times> nat \<Rightarrow> json" where
  "group_output out op g =
     (case g of (k, acc_sum, n) \<Rightarrow>
        JObj [(''_id'', k),
              (out, if op = ''$sum'' then JNum acc_sum
                    else if n = 0 then JNull else JNum (acc_sum / of_nat n))])"

definition run_stage :: "stage \<Rightarrow> json list \<Rightarrow> js_error + json list" where
  "run_stage st docs =
     (case st of
        Project ps \<Rightarrow>
          (case check_projection ps of
             Some err \<Rightarrow> Inl err
           | None \<Rightarrow> map_ok (project_doc ps) docs)
      | Group ie out op oe \<Rightarrow>
          (case check_expr ie of
             Some err \<Rightarrow> Inl err
           | None \<Rightarrow>
               (if op \<noteq> ''$sum'' \<and> op \<noteq> ''$avg'' then Inl (unknown_group_operator op)
                else (case check_expr oe of
                        Some err \<Rightarrow> Inl err
                      | None \<Rightarrow>
                          (case group_docs ie oe docs [] of
                             Inl err \<Rightarrow> Inl err
                           | Inr gs \<Rightarrow> Inr (map (group_output out op) gs))))))"

text \<open>\<open>Potion.aggregate([stage])\<close>\<close>

definition aggregate :: "catalog_store \<Rightarrow> stage \<Rightarrow> json list promise" where
  "aggregate S st =
     (case fault S of
        Some e \<Rightarrow> Rejected e
      | None \<Rightarrow> (case run_stage st (potions S) of Inl err \<Rightarrow> Rejected err | Inr r \<Rightarrow> Resolved r))"

section \<open>The analytics routes\<close>

text \<open>\<open>analytics.get('/strength-flavor-ratio')\<close>\<close>

definition ratio_expr :: expr where
  "ratio_expr =
     Cond (Eq (Str ''$ratings.flavor'') (Lit (JNum 0)))
          (Lit JNull)
          (Divide (Str ''$ratings.strength'') (Str ''$ratings.flavor''))"

definition ratio_stage :: stage where
  "ratio_stage = Project [(''name'', Include), (''strengthFlavorRatio'', Compute ratio_expr)]"

definition analytics_get_strength_flavor_ratio :: "catalog_store \<Rightarrow> catalog_store outcome" where
  "analytics_get_strength_flavor_ratio S =
     \<lparr>reply =
        (case aggregate S ratio_stage of
           Resolved result \<Rightarrow> send 200 (JArr result)
         | Rejected err \<Rightarrow> send 500 (error_body (err_message err))),
      calls = [Aggregate ratio_stage],
      store_after = S\<rparr>"

text \<open>
  The values a property of the object literal \<open>allowedMetrics\<close> can have: one of its own
  strings, or what it inherits from \<open>Object.prototype\<close> (a function, or the prototype
  object itself under \<open>__proto__\<close>), or \<open>undefined\<close>.
\<close>

datatype jsval = Undefined | JsString string | JsFunction string | JsObject

definition object_prototype :: "string \<Rightarrow> jsval" where
  "object_prototype k =
     (if k = ''constructor'' then JsFunction ''Object''
      else if k \<in> set [''hasOwnProperty'', ''isPrototypeOf'', ''propertyIsEnumerable'',
                        ''toLocaleString'', ''toString'', ''valueOf'', ''__defineGetter__'',
                        ''__defineSetter__'', ''__lookupGetter__'', ''__lookupSetter__'']
      then JsFunction k
      else if k = ''__proto__'' then JsObject
      else Undefined)"

definition allowedMetrics :: "string \<Rightarrow> jsval" where
  "allowedMetrics k =
     (case map_of [(''avg'', ''$avg''), (''sum'', ''$sum''), (''count'', ''$count'')] k of
        Some v \<Rightarrow> JsString v
      | None \<Rightarrow> object_prototype k)"

text \<open>A query parameter is a string, or \<open>undefined\<close> when the request does not give it.\<close>

definition to_string :: "string option \<Rightarrow> string" where
  "to_string q = (case q of None \<Rightarrow> ''undefined'' | Some s \<Rightarrow> s)"

text \<open>\<open>!x\<close>\<close>

definition not_param :: "string option \<Rightarrow> bool" where
  "not_param q = (q = None \<or> q = Some [])"

definition not_jsval :: "jsval \<Rightarrow> bool" where
  "not_jsval v = (v = Undefined \<or> v = JsString [])"

text \<open>The string a value becomes as a computed property key.\<close>

definition to_property_key :: "jsval \<Rightarrow> string" where
  "to_property_key v =
     (case v of
        Undefined \<Rightarrow> ''undefined''
      | JsString s \<Rightarrow> s
      | JsFunction n \<Rightarrow> ''function '' @ n @ ''() { [native code] }''
      | JsObject \<Rightarrow> ''[object Object]'')"

definition msg_parametres_invalides :: string where
  "msg_parametres_invalides = ''Param'' @ [CHR 0xC3, CHR 0xA8] @ ''tres invalides''"

text \<open>\<open>analytics.get('/search')\<close>\<close>

definition group_stage_of :: "string option \<Rightarrow> string option \<Rightarrow> string option \<Rightarrow> stage" where
  "group_stage_of groupBy metric fld =
     (if metric = Some ''count''
      then Group (Str (''$'' @ to_string groupBy)) ''count'' ''$sum'' (Lit (JNum 1))
      else Group (Str (''$'' @ to_string groupBy)) ''result''
             (to_property_key (allowedMetrics (to_string metric)))
             (Str (''$'' @ to_string fld)))"

definition analytics_get_search ::
  "catalog_store \<Rightarrow> string option \<Rightarrow> string option \<Rightarrow> string option \<Rightarrow> catalog_store outcome" where
  "analytics_get_search S groupBy metric fld =
     (let mongoMetric = allowedMetrics (to_string metric) in
      if not_jsval mongoMetric \<or> not_param groupBy \<or> (not_param fld \<and> metric \<noteq> Some ''count'')
      then \<lparr>reply = send 400 (error_body msg_parametres_invalides), calls = [], store_after = S\<rparr>
      else
        let groupStage = group_stage_of groupBy metric fld in
        \<lparr>reply =
           (case aggregate S groupStage of
              Resolved result \<Rightarrow> send 200 (JArr result)
            | Rejected err \<Rightarrow> send 500 (error_body (err_message err))),
         calls = [Aggregate groupStage],
         store_after = S\<rparr>)"

section \<open>The auth routes\<close>

text \<open>
  \<open>escape\<close> of validator.js replaces \<open>&\<close>, \<open>"\<close>, \<open>'\<close>, \<open><\<close>, \<open>>\<close>, \<open>/\<close>, \<open>\\<close> and the backquote
  by HTML entities.
\<close>

definition escape_char :: "char \<Rightarrow> string" where
  "escape_char c =
     (if c = CHR ''&'' then ''&amp;''
      else if c = CHR 0x22 then ''&quot;''
      else if c = CHR 0x27 then ''&#x27;''
      else if c = CHR ''<'' then ''&lt;''
      else if c = CHR ''>'' then ''&gt;''
      else if c = CHR ''/'' then ''&#x2F;''
      else if c = CHR 0x5C then ''&#x5C;''
      else if c = CHR 0x60 then ''&#96;''
      else [c])"

definition escape :: "string \<Rightarrow> string" where
  "escape s = concat (map escape_char s)"

text \<open>
  The length \<open>isLength\<close> of validator.js compares: the length of the string, less the
  number of its surrogate pairs, less the number of its variation selectors U+FE0E and
  U+FE0F. The first two together are the number of characters, in UTF-8 the number of
  bytes that do not continue a character; the selectors are the byte sequences
  \<open>EF B8 8E\<close> and \<open>EF B8 8F\<close>.
\<close>

definition code_points :: "string \<Rightarrow> nat" where
  "code_points s =
     length (filter (\<lambda>c. \<not> (0x80 \<le> (of_char c :: nat) \<and> (of_char c :: nat) < 0xC0)) s)"

fun selectors :: "string \<Rightarrow> nat" where
  "selectors (a # b # c # s) =
     (if (of_char a :: nat) = 0xEF \<and> (of_char b :: nat) = 0xB8 \<and>
         ((of_char c :: nat) = 0x8E \<or> (of_char c :: nat) = 0x8F)
      then 1 else 0) + selectors (b # c # s)"
| "selectors s = 0"

definition char_count :: "string \<Rightarrow> nat" where
  "char_count s = code_points s - selectors s"

definition msg_nom_requis :: string where
  "msg_nom_requis =
     ''Le nom d'' @ [CHR 0xE2, CHR 0x80, CHR 0x99] @ ''utilisateur est requis.''"

definition msg_entre_3_et_30 :: string where
  "msg_entre_3_et_30 = ''Doit faire entre 3 et 30 caract'' @ [CHR 0xC3, CHR 0xA8] @ ''res.''"

definition msg_mot_de_passe_requis :: string where
  "msg_mot_de_passe_requis = ''Le mot de passe est requis.''"

definition msg_minimum_6 :: string where
  "msg_minimum_6 = ''Minimum 6 caract'' @ [CHR 0xC3, CHR 0xA8] @ ''res.''"

definition msg_erreur_systeme :: string where
  "msg_erreur_systeme = ''Erreur syst'' @ [CHR 0xC3, CHR 0xA8] @ ''me''"

definition msg_utilisateur_cree :: string where
  "msg_utilisateur_cree = ''Utilisateur cr'' @ [CHR 0xC3, CHR 0xA9, CHR 0xC3, CHR 0xA9]"

definition msg_identifiants_invalides :: string where
  "msg_identifiants_invalides = ''Identifiants invalides''"

definition msg_connecte :: string where
  "msg_connecte =
     ''Connect'' @ [CHR 0xC3, CHR 0xA9] @ '' avec succ'' @ [CHR 0xC3, CHR 0xA8] @ ''s''"

text \<open>An entry of \<open>validationResult(req).array()\<close>.\<close>

definition field_error :: "string \<Rightarrow> string \<Rightarrow> string \<Rightarrow> json" where
  "field_error v m p =
     JObj [(''value'', JStr v), (''msg'', JStr m), (''param'', JStr p), (''location'', JStr ''body'')]"

text \<open>
  A field of the body that is absent is validated as the empty string. The chain runs in
  the order it is written: \<open>trim\<close>, \<open>escape\<close>, then \<open>notEmpty\<close> and \<open>isLength\<close> on the
  sanitized value, each validator that fails adding its error.
\<close>

definition sanitize_field :: "string option \<Rightarrow> string" where
  "sanitize_field raw = escape (trim (case raw of None \<Rightarrow> [] | Some s \<Rightarrow> s))"

definition name_errors :: "string \<Rightarrow> json list" where
  "name_errors v =
     (if v = [] then [field_error v msg_nom_requis ''name''] else []) @
     (if 3 \<le> char_count v \<and> char_count v \<le> 30 then []
      else [field_error v msg_entre_3_et_30 ''name''])"

definition password_errors :: "string \<Rightarrow> json list" where
  "password_errors v =
     (if v = [] then [field_error v msg_mot_de_passe_requis ''password''] else []) @
     (if 6 \<le> char_count v then [] else [field_error v msg_minimum_6 ''password''])"

record user =
  user_id :: string
  user_name :: string
  user_password :: string

record credential_store =
  users :: "user list"
  cred_fault :: "js_error option"

text \<open>
  The file \<open>user.model.js\<close> is not among the sources, so what it fixes is a parameter: the
  derivation of the stored hash from a password, the comparison of a candidate password
  with a stored hash (\<open>comparePassword\<close>), the validation of a new user by the schema, and
  the identifier given to a new user.
\<close>

record user_model =
  derive_hash :: "string \<Rightarrow> string"
  comparePassword :: "string \<Rightarrow> string \<Rightarrow> bool"
  validate_user :: "string \<Rightarrow> string \<Rightarrow> js_error option"
  fresh_user_id :: "user list \<Rightarrow> string"

text \<open>
  \<open>new User({name, password})\<close> followed by \<open>save()\<close>. The names are unique in the store (a
  unique index, as the data model of the spec has it): an insert with a name that
  exists is refused with code 11000.
\<close>

definition save_user ::
  "user_model \<Rightarrow> credential_store \<Rightarrow> string \<Rightarrow> string \<Rightarrow> unit promise \<times> credential_store" where
  "save_user U C name password =
     (case validate_user U name password of
        Some e \<Rightarrow> (Rejected e, C)
      | None \<Rightarrow>
          (case cred_fault C of
             Some e \<Rightarrow> (Rejected e, C)
           | None \<Rightarrow>
               (if name \<in> set (map user_name (users C))
                then (Rejected (duplicate_key_error ''name''), C)
                else (Resolved (),
                      C\<lparr>users := users C @
                         [\<lparr>user_id = fresh_user_id U (users C), user_name = name,
                           user_password = derive_hash U password\<rparr>]\<rparr>))))"

text \<open>\<open>router.post('/register', [...], ...)\<close>\<close>

definition auth_post_register ::
  "user_model \<Rightarrow> credential_store \<Rightarrow> string option \<Rightarrow> string option \<Rightarrow> credential_store outcome" where
  "auth_post_register U C body_name body_password =
     (let name = sanitize_field body_name;
          password = sanitize_field body_password;
          errors = name_errors name @ password_errors password
      in if errors \<noteq> []
         then \<lparr>reply = send 400 (JObj [(''errors'', JArr errors)]), calls = [], store_after = C\<rparr>
         else
           (case save_user U C name password of
              (Resolved _, C') \<Rightarrow>
                \<lparr>reply = send 201 (JObj [(''message'', JStr msg_utilisateur_cree)]),
                 calls = [SaveUser name], store_after = C'\<rparr>
            | (Rejected err, C') \<Rightarrow>
                \<lparr>reply = (if err_code err = Some 11000
                           then send 500 (error_body msg_erreur_systeme)
                           else send 400 (error_body (err_message err))),
                 calls = [SaveUser name], store_after = C'\<rparr>))"

text \<open>\<open>User.findOne({ name })\<close>\<close>

definition find_user :: "credential_store \<Rightarrow> string \<Rightarrow> user option promise" where
  "find_user C name =
     (case cred_fault C of
        Some e \<Rightarrow> Rejected e
      | None \<Rightarrow> Resolved (find (\<lambda>u. user_name u = name) (users C)))"

text \<open>
  The signing of a token (\<open>jwt.sign\<close> with the secret and the validity of one day) and the
  name of the cookie given by the environment are parameters.
\<close>

record token_config =
  sign_token :: "json \<Rightarrow> string"
  env_cookie_name :: "string option"

definition COOKIE_NAME :: "token_config \<Rightarrow> string" where
  "COOKIE_NAME T =
     (case env_cookie_name T of
        None \<Rightarrow> ''demo_node+mongo_token''
      | Some n \<Rightarrow> (if n = [] then ''demo_node+mongo_token'' else n))"

text \<open>
  A handler without \<open>try\<close>: it sends a response, or throws the error of the call it
  awaited and sends nothing.
\<close>

datatype handled = Sent response | Thrown js_error

text \<open>\<open>router.post('/login', ...)\<close>, from the sanitized strings \<open>name\<close> and \<open>password\<close> on.\<close>

definition auth_post_login ::
  "token_config \<Rightarrow> user_model \<Rightarrow> credential_store \<Rightarrow> string \<Rightarrow> string \<Rightarrow> handled" where
  "auth_post_login T U C name password =
     (case find_user C name of
        Rejected e \<Rightarrow> Thrown e
      | Resolved None \<Rightarrow> Sent (send 401 (error_body msg_identifiants_invalides))
      | Resolved (Some u) \<Rightarrow>
          (if \<not> comparePassword U (user_password u) password
           then Sent (send 401 (error_body msg_identifiants_invalides))
           else
             let token = sign_token T (JObj [(''id'', JStr (user_id u)), (''name'', JStr (user_name u))])
             in Sent \<lparr>status = 200,
                      body = JObj [(''message'', JStr msg_connecte)],
                      cookies = [\<lparr>cookie_name = COOKIE_NAME T, cookie_value = token,
                                  httpOnly = True, sameSite = ''strict'', secure = False,
                                  maxAge = 24 * 60 * 60 * 1000\<rparr>]\<rparr>))"

section \<open>Instances of the parameters\<close>

text \<open>
  One choice of the parameters, to run the routes on concrete requests: identifiers are
  ObjectIds, the potion schema accepts every object as it is, a token is verified by
  comparing it with one known token, and a hash is the password behind a prefix.
\<close>

definition schema_error :: js_error where
  "schema_error =
     \<lparr>err_name = ''ValidationError'', err_code = None,
      err_message = ''Potion validation failed''\<rparr>"

definition any_object :: "json \<Rightarrow> js_error + (string \<times> json) list" where
  "any_object j = (case j of JObj kvs \<Rightarrow> Inr kvs | _ \<Rightarrow> Inl schema_error)"

definition sample_model :: potion_model where
  "sample_model =
     \<lparr>cast_id = cast_ObjectId, validate_doc = any_object, cast_update = any_object,
      fresh_id = (\<lambda>ds. replicate (24 - length ds) (CHR ''0'') @ replicate (length ds) (CHR ''1''))\<rparr>"

definition sample_auth :: auth_config where
  "sample_auth =
     \<lparr>cookie_key = ''demo_node+mongo_token'',
      verify_token = (\<lambda>t. if t = ''signed-token'' then Some (JObj [(''id'', JStr ''u1''), (''name'', JStr ''harrypotter'')]) else None),
      unauthorized_body = error_body ''Unauthorized''\<rparr>"

definition sample_users :: user_model where
  "sample_users =
     \<lparr>derive_hash = (\<lambda>p. ''hash:'' @ p),
      comparePassword = (\<lambda>h p. h = ''hash:'' @ p),
      validate_user = (\<lambda>n p. None),
      fresh_user_id = (\<lambda>us. replicate (Suc (length us)) (CHR ''u''))\<rparr>"

definition sample_tokens :: token_config where
  "sample_tokens = \<lparr>sign_token = (\<lambda>payload. ''signed-token''), env_cookie_name = None\<rparr>"

definition network_error :: js_error where
  "network_error =
     \<lparr>err_name = ''MongoNetworkError'', err_code = None,
      err_message = ''connect ECONNREFUSED 127.0.0.1:27017''\<rparr>"

definition elixir :: json where
  "elixir = JObj [(''name'', JStr ''Elixir''), (''price'', JNum 10), (''vendor_id'', JStr ''v1'')]"

definition potion_a :: json where
  "potion_a =
     JObj [(''_id'', JStr ''660bcf5fca6e9f06b8a2eecd''), (''name'', JStr ''Potion de soin''),
           (''price'', JNum 12), (''score'', JNum 5),
           (''ratings'', JObj [(''strength'', JNum 4), (''flavor'', JNum 2)]),
           (''vendor_id'', JStr ''v1'')]"

definition potion_b :: json where
  "potion_b =
     JObj [(''_id'', JStr ''660bcf5fca6e9f06b8a2eece''), (''name'', JStr ''Potion de feu''),
           (''price'', JNum 30), (''score'', JNum 3),
           (''ratings'', JObj [(''strength'', JNum 5), (''flavor'', JNum 0)]),
           (''vendor_id'', JStr ''v1'')]"

definition potion_c :: json where
  "potion_c =
     JObj [(''_id'', JStr ''660bcf5fca6e9f06b8a2eecf''), (''name'', JStr ''Philtre''),
           (''price'', JNum (99 / 2)), (''score'', JNum 4),
           (''ratings'', JObj [(''strength'', JNum 1), (''flavor'', JNum 4)]),
           (''vendor_id'', JStr ''v2'')]"

definition sample_store :: catalog_store where
  "sample_store = \<lparr>potions = [potion_a, potion_b, potion_c], fault = None\<rparr>"

text \<open>
  A second catalog, with a potion that has neither ratings nor a vendor, and one whose
  ratings are doubles far apart.
\<close>

definition potion_d :: json where
  "potion_d =
     JObj [(''_id'', JStr ''660bcf5fca6e9f06b8a2eed0''), (''name'', JStr ''Eau de source''),
           (''price'', JNum 1)]"

definition potion_e :: json where
  "potion_e =
     JObj [(''_id'', JStr ''660bcf5fca6e9f06b8a2eed1''), (''name'', JStr ''Essence''),
           (''price'', JNum 80),
           (''ratings'', JObj [(''strength'', JNum (2 ^ 1023)), (''flavor'', JNum (1 / 4))]),
           (''vendor_id'', JStr ''v2'')]"

definition mixed_store :: catalog_store where
  "mixed_store = \<lparr>potions = [potion_a, potion_b, potion_d, potion_e], fault = None\<rparr>"

text \<open>
  A schema that casts the price of an update to a number, and refuses a price that is a
  document.
\<close>

definition price_cast_error :: js_error where
  "price_cast_error =
     \<lparr>err_name = ''CastError'', err_code = None,
      err_message = ''Cast to Number failed for value \"{}\" (type Object) at path \"price\"''\<rparr>"

definition cast_price :: "json \<Rightarrow> js_error + (string \<times> json) list" where
  "cast_price j =
     (case j of
        JObj kvs \<Rightarrow> (case map_of kvs ''price'' of Some (JObj _) \<Rightarrow> Inl price_cast_error | _ \<Rightarrow> Inr kvs)
      | _ \<Rightarrow> Inl schema_error)"

definition priced_model :: potion_model where
  "priced_model = sample_model\<lparr>cast_update := cast_price\<rparr>"

definition harry :: user where
  "harry = \<lparr>user_id = ''u'', user_name = ''harrypotter'', user_password = ''hash:azkaban123''\<rparr>"

definition sample_credentials :: credential_store where
  "sample_credentials = \<lparr>users = [harry], cred_fault = None\<rparr>"

section \<open>The notions of the claims\<close>

text \<open>
  The price of a potion, when it has one that is a number. The bound a parameter of the
  request gives is the number \<open>parseFloat\<close> reads from it, and none when it reads \<open>NaN\<close>; a
  side without a bound is open.
\<close>

definition price_of :: "json \<Rightarrow> jsnum option" where
  "price_of d = as_number (field ''price'' d)"

definition bound_of :: "string option \<Rightarrow> jsnum option" where
  "bound_of q = (if isNaN (parseFloat q) then None else Some (parseFloat q))"

definition above :: "jsnum option \<Rightarrow> json \<Rightarrow> bool" where
  "above lo d =
     (case lo of
        None \<Rightarrow> True
      | Some a \<Rightarrow> (case price_of d of None \<Rightarrow> False | Some x \<Rightarrow> num_le a x))"

definition below :: "jsnum option \<Rightarrow> json \<Rightarrow> bool" where
  "below hi d =
     (case hi of
        None \<Rightarrow> True
      | Some b \<Rightarrow> (case price_of d of None \<Rightarrow> False | Some x \<Rightarrow> num_le x b))"

definition in_price_range :: "jsnum option \<Rightarrow> jsnum option \<Rightarrow> json \<Rightarrow> bool" where
  "in_price_range lo hi d = (above lo d \<and> below hi d)"

text \<open>
  What a parameter that gives a bound looks like: after the leading white space and one
  optional sign it starts with a digit, with a dot and a digit, or with \<open>Infinity\<close>.
\<close>

definition starts_number :: "string \<Rightarrow> bool" where
  "starts_number t =
     (take 8 t = ''Infinity'' \<or>
      (case t of
         [] \<Rightarrow> False
       | c # r \<Rightarrow> is_digit c \<or> (c = CHR ''.'' \<and> (case r of [] \<Rightarrow> False | c' # _ \<Rightarrow> is_digit c'))))"

definition unsigned_part :: "string \<Rightarrow> string" where
  "unsigned_part s = (let t = ltrim s in if take 1 t = ''-'' \<or> take 1 t = ''+'' then drop 1 t else t)"

text \<open>
  What can follow the digits of an integer without being read as part of the number:
  nothing, or a character that is not a digit, a dot or the mark of an exponent.
\<close>

definition ends_integer :: "string \<Rightarrow> bool" where
  "ends_integer r = (case r of [] \<Rightarrow> True | c # _ \<Rightarrow> \<not> is_digit c \<and> c \<notin> set ''.eE'')"

text \<open>
  The same after the digits of a fraction, where a dot ends the number; and the value of
  the decimal number with the integer digits \<open>ds\<close> and the fraction digits \<open>fs\<close>.
\<close>

definition ends_fraction :: "string \<Rightarrow> bool" where
  "ends_fraction r = (case r of [] \<Rightarrow> True | c # _ \<Rightarrow> \<not> is_digit c \<and> c \<notin> set ''eE'')"

definition decimal :: "string \<Rightarrow> string \<Rightarrow> rat" where
  "decimal ds fs = of_nat (digits_val ds) + of_nat (digits_val fs) / 10 ^ length fs"

text \<open>
  A rating of a potion: the value under \<open>ratings\<close>, when \<open>ratings\<close> is a document that has
  it. The ratings of a potion are numbers when \<open>ratings\<close> is not an array and each of
  strength and flavor is a number, \<open>null\<close> or absent. The ratio of a result is its field
  \<open>strengthFlavorRatio\<close>.
\<close>

definition rating :: "string \<Rightarrow> json \<Rightarrow> json option" where
  "rating k d = (case field ''ratings'' d of Some (JObj r) \<Rightarrow> map_of r k | _ \<Rightarrow> None)"

definition ratings_are_numbers :: "json \<Rightarrow> bool" where
  "ratings_are_numbers d =
     ((case field ''ratings'' d of Some (JArr xs) \<Rightarrow> False | _ \<Rightarrow> True) \<and>
      list_all (\<lambda>k. nullish (rating k d) \<or> as_number (rating k d) \<noteq> None) [''strength'', ''flavor''])"

definition ratio_of :: "json \<Rightarrow> json option" where
  "ratio_of r = field ''strengthFlavorRatio'' r"

text \<open>
  What the result \<open>r\<close> of the ratio route says of the potion \<open>d\<close>: the \<open>_id\<close> and the name
  of the potion; a ratio \<open>null\<close> when the flavor is 0; the double quotient of strength by
  flavor when both are finite numbers and the flavor is not 0; a ratio \<open>null\<close> when one of
  the two is \<open>null\<close> or absent.
\<close>

definition reports_ratio :: "json \<Rightarrow> json \<Rightarrow> bool" where
  "reports_ratio d r =
     (field ''_id'' r = field ''_id'' d \<and> field ''name'' r = field ''name'' d \<and>
      (rating ''flavor'' d = Some (JNum 0) \<longrightarrow> ratio_of r = Some JNull) \<and>
      (case (rating ''strength'' d, rating ''flavor'' d) of
         (Some (JNum s), Some (JNum f)) \<Rightarrow>
           f \<noteq> 0 \<longrightarrow> ratio_of r = Some (of_jsnum (to_double (s / f)))
       | _ \<Rightarrow> True) \<and>
      (nullish (rating ''strength'' d) \<or> nullish (rating ''flavor'' d) \<longrightarrow> ratio_of r = Some JNull))"

text \<open>
  The value a document has for the field named by \<open>groupBy\<close>, \<open>null\<close> when it has none, and
  the number of documents with a given value.
\<close>

definition key_at :: "string \<Rightarrow> json \<Rightarrow> json" where
  "key_at g d = (case eval_path (split_on (CHR ''.'') g) d of None \<Rightarrow> JNull | Some v \<Rightarrow> v)"

definition count_at :: "string \<Rightarrow> json list \<Rightarrow> json \<Rightarrow> nat" where
  "count_at g docs k = length (filter (\<lambda>d. key_at g d = k) docs)"

definition count_entry :: "string \<Rightarrow> json list \<Rightarrow> json \<Rightarrow> json" where
  "count_entry g docs k = JObj [(''_id'', k), (''count'', JNum (of_nat (count_at g docs k)))]"

text \<open>
  The invariant of the grouping: after the documents \<open>ds\<close> there is one group per key, and
  its state is the number of the documents with that key.
\<close>

definition counted :: "string \<Rightarrow> json list \<Rightarrow> (json \<times> rat \<times> nat) list \<Rightarrow> bool" where
  "counted g ds gs =
     (distinct (map fst gs) \<and> set (map fst gs) = key_at g ` set ds \<and>
      (\<forall>k \<in> set (map fst gs). map_of gs k = Some (of_nat (count_at g ds k), count_at g ds k)))"

text \<open>A request without a session: no session cookie, or one whose token does not verify.\<close>

definition no_session :: "auth_config \<Rightarrow> (string \<times> string) list \<Rightarrow> bool" where
  "no_session A ck =
     (case map_of ck (cookie_key A) of None \<Rightarrow> True | Some token \<Rightarrow> verify_token A token = None)"

section \<open>Auxiliary facts\<close>

lemma find_none_iff: "find P xs = None \<longleftrightarrow> (\<forall>x\<in>set xs. \<not> P x)"
  by (induction xs) auto

lemma find_some_member: "find P xs = Some x \<Longrightarrow> x \<in> set xs \<and> P x"
  by (induction xs) (auto split: if_splits)

text \<open>Strings without white space at the ends and without escaped characters are left as they are.\<close>

lemma sanitize_plain:
  "sanitize_field (Some ''harrypotter'') = ''harrypotter''"
  "sanitize_field (Some ''hermione'') = ''hermione''"
  "sanitize_field (Some ''123456'') = ''123456''"
  by (simp_all add: sanitize_field_def trim_def ltrim.simps rtrim.simps escape_def escape_char_def
        ws_start_def ws_end_def is_ws_def)

text \<open>
  Floors and ceilings of fractions, to compute a rounding; and roundings: a half, a tenth,
  the first integer that is not a double, the largest double and the values around the
  threshold of the overflow, the smallest double and the values below it.
\<close>

lemma floor_rat_numeral [simp]:
  "\<lfloor>numeral a / numeral b :: rat\<rfloor> = numeral a div numeral b"
  using floor_divide_of_int_eq [of "numeral a" "numeral b", where ?'a = rat] by simp

lemma ceiling_rat_numeral [simp]:
  "\<lceil>numeral a / numeral b :: rat\<rceil> = - (- numeral a div numeral b)"
  using ceiling_divide_eq_div [of "numeral a" "numeral b", where ?'a = rat] by simp

lemma floor_rat_one [simp]: "\<lfloor>1 / numeral b :: rat\<rfloor> = 1 div numeral b"
  using floor_divide_of_int_eq [of 1 "numeral b", where ?'a = rat] by simp

lemma ceiling_rat_one [simp]: "\<lceil>1 / numeral b :: rat\<rceil> = - (- 1 div numeral b)"
  using ceiling_divide_eq_div [of 1 "numeral b", where ?'a = rat] by simp

lemmas double_simps =
  to_double_def pow2_def ilog2_def round_half_even_def Let_def bit_length.simps

lemma to_double_samples:
  "to_double (1 / 2) = Finite (1 / 2)"
  "to_double (1 / 10) = Finite (3602879701896397 / 36028797018963968)"
  "to_double 9007199254740993 = Finite 9007199254740992"
  "to_double 9007199254740995 = Finite 9007199254740996"
  "to_double (2 ^ 1024 - 2 ^ 971) = Finite (2 ^ 1024 - 2 ^ 971)"
  "to_double (2 ^ 1024 - 2 ^ 970 - 1) = Finite (2 ^ 1024 - 2 ^ 971)"
  "to_double (2 ^ 1024 - 2 ^ 970) = PosInfinity"
  "to_double (- (2 ^ 1024)) = NegInfinity"
  "to_double (1 / 2 ^ 1074) = Finite (1 / 2 ^ 1074)"
  "to_double (1 / 2 ^ 1075) = Finite 0"
  "to_double (3 / 2 ^ 1075) = Finite (2 / 2 ^ 1074)"
  by (simp_all add: double_simps)

lemma to_double_not_NaN: "to_double x \<noteq> NaN"
  by (simp add: to_double_def Let_def)

lemma round_zero: "round_half_even 0 = 0"
  by (simp add: round_half_even_def)

lemma negate_to_double: "negate (to_double x) = to_double (- x)"
  by (simp add: to_double_def negate_def Let_def round_zero)

section \<open>Lookup of a potion by identifier\<close>

text \<open>
  Claim C1, as the code has it. \<open>GET /potions/:id\<close>: when the identifier does not cast to
  the type of \<open>_id\<close> (a malformed identifier), the response is a system error (500) that
  carries the message of the cast error; when it casts and the store answers, the
  response is either a potion of the catalog with that identifier (200) or NotFound
  (404), the latter exactly when no potion has the identifier.
\<close>

theorem get_by_id_found_notfound_or_cast_error:
  "(\<forall>e. cast_id M i = Inl e \<longrightarrow>
      reply (router_get_id M S i) = send 500 (error_body (err_message e))) \<and>
   (\<forall>oid. cast_id M i = Inr oid \<and> fault S = None \<longrightarrow>
      (\<exists>p \<in> set (potions S). has_id oid p \<and> reply (router_get_id M S i) = send 200 p) \<or>
      ((\<forall>p \<in> set (potions S). \<not> has_id oid p) \<and>
       reply (router_get_id M S i) = send 404 (error_body msg_potion_non_trouvee)))"
proof (intro conjI allI impI)
  fix e
  assume "cast_id M i = Inl e"
  then show "reply (router_get_id M S i) = send 500 (error_body (err_message e))"
    by (simp add: router_get_id_def findById_def)
next
  fix oid
  assume a: "cast_id M i = Inr oid \<and> fault S = None"
  show "(\<exists>p \<in> set (potions S). has_id oid p \<and> reply (router_get_id M S i) = send 200 p) \<or>
      ((\<forall>p \<in> set (potions S). \<not> has_id oid p) \<and>
       reply (router_get_id M S i) = send 404 (error_body msg_potion_non_trouvee))"
  proof (cases "find (has_id oid) (potions S)")
    case None
    then have "\<forall>p \<in> set (potions S). \<not> has_id oid p"
      by (simp add: find_none_iff)
    moreover have "reply (router_get_id M S i) = send 404 (error_body msg_potion_non_trouvee)"
      using a None by (simp add: router_get_id_def findById_def)
    ultimately show ?thesis by blast
  next
    case (Some p)
    then have "p \<in> set (potions S) \<and> has_id oid p"
      by (rule find_some_member)
    moreover have "reply (router_get_id M S i) = send 200 p"
      using a Some by (simp add: router_get_id_def findById_def)
    ultimately show ?thesis by blast
  qed
qed

text \<open>
  The three cases on the sample catalog: a malformed identifier, the identifier of
  \<open>potion_a\<close> in upper case, and a well-formed identifier that no potion has.
\<close>

theorem get_by_id_witness:
  "cast_id sample_model ''abc'' = Inl (cast_error ''abc'') \<and>
   reply (router_get_id sample_model sample_store ''abc'') =
     send 500 (error_body (err_message (cast_error ''abc''))) \<and>
   cast_id sample_model ''660BCF5FCA6E9F06B8A2EECD'' = Inr ''660bcf5fca6e9f06b8a2eecd'' \<and>
   fault sample_store = None \<and>
   reply (router_get_id sample_model sample_store ''660BCF5FCA6E9F06B8A2EECD'') = send 200 potion_a \<and>
   cast_id sample_model ''660bcf5fca6e9f06b8a2eec0'' = Inr ''660bcf5fca6e9f06b8a2eec0'' \<and>
   reply (router_get_id sample_model sample_store ''660bcf5fca6e9f06b8a2eec0'') =
     send 404 (error_body msg_potion_non_trouvee)"
proof -
  have c1: "cast_id sample_model ''abc'' = Inl (cast_error ''abc'')"
    by (simp add: sample_model_def cast_ObjectId_def)
  have c2: "cast_id sample_model ''660BCF5FCA6E9F06B8A2EECD'' = Inr ''660bcf5fca6e9f06b8a2eecd''"
    by (simp add: sample_model_def cast_ObjectId_def is_hex_def lower_hex_def)
  have c3: "cast_id sample_model ''660bcf5fca6e9f06b8a2eec0'' = Inr ''660bcf5fca6e9f06b8a2eec0''"
    by (simp add: sample_model_def cast_ObjectId_def is_hex_def lower_hex_def)
  have f: "fault sample_store = None"
    by (simp add: sample_store_def)
  have ids: "has_id ''660bcf5fca6e9f06b8a2eecd'' potion_a"
    "\<not> has_id ''660bcf5fca6e9f06b8a2eec0'' potion_a"
    "\<not> has_id ''660bcf5fca6e9f06b8a2eec0'' potion_b"
    "\<not> has_id ''660bcf5fca6e9f06b8a2eec0'' potion_c"
    by (simp_all add: has_id_def field_def potion_a_def potion_b_def potion_c_def)
  note t = get_by_id_found_notfound_or_cast_error [of sample_model _ sample_store]
  have r1: "reply (router_get_id sample_model sample_store ''abc'') =
     send 500 (error_body (err_message (cast_error ''abc'')))"
    using t [of "''abc''"] c1 by blast
  have r2: "reply (router_get_id sample_model sample_store ''660BCF5FCA6E9F06B8A2EECD'') = send 200 potion_a"
    using c2 f ids by (simp add: router_get_id_def findById_def sample_store_def)
  have r3: "reply (router_get_id sample_model sample_store ''660bcf5fca6e9f06b8a2eec0'') =
     send 404 (error_body msg_potion_non_trouvee)"
    using t [of "''660bcf5fca6e9f06b8a2eec0''"] c3 f ids
    by (auto simp: sample_store_def)
  show ?thesis using c1 c2 c3 f r1 r2 r3 by simp
qed

text \<open>
  The claim as the spec words it (a malformed identifier yields NotFound, never a system
  error) fails: the identifier \<open>abc\<close> is answered with status 500.
\<close>

theorem malformed_id_is_system_error:
  "status (reply (router_get_id sample_model sample_store ''abc'')) = 500"
  by (simp add: router_get_id_def findById_def sample_model_def cast_ObjectId_def send_def)

section \<open>Login\<close>

text \<open>
  Claim C2. A login with the name of an existing user and a password that
  \<open>comparePassword\<close> refuses, and a login with a name that no user has (any password),
  have the same outcome; when the store answers, it is the response of status 401 with
  the one body \<open>{error: 'Identifiants invalides'}\<close> and no cookie.
\<close>

theorem login_failures_indistinguishable:
  assumes "n1 \<in> user_name ` set (users C)"
    and "\<forall>u \<in> set (users C). user_name u = n1 \<longrightarrow> \<not> comparePassword U (user_password u) p1"
    and "n2 \<notin> user_name ` set (users C)"
  shows "auth_post_login T U C n1 p1 = auth_post_login T U C n2 p2 \<and>
         (cred_fault C = None \<longrightarrow>
            auth_post_login T U C n2 p2 = Sent (send 401 (error_body msg_identifiants_invalides)))"
proof -
  from assms(1) obtain u where u: "find (\<lambda>u. user_name u = n1) (users C) = Some u"
    by (cases "find (\<lambda>u. user_name u = n1) (users C)") (auto simp: find_none_iff)
  then have "u \<in> set (users C) \<and> user_name u = n1"
    by (rule find_some_member)
  with assms(2) have wrong: "\<not> comparePassword U (user_password u) p1"
    by blast
  have absent: "find (\<lambda>u. user_name u = n2) (users C) = None"
    using assms(3) by (auto simp: find_none_iff)
  show ?thesis
  proof (cases "cred_fault C")
    case None
    have a: "auth_post_login T U C n1 p1 = Sent (send 401 (error_body msg_identifiants_invalides))"
      using None u wrong by (simp add: auth_post_login_def find_user_def)
    have b: "auth_post_login T U C n2 p2 = Sent (send 401 (error_body msg_identifiants_invalides))"
      using None absent by (simp add: auth_post_login_def find_user_def)
    show ?thesis using a b by simp
  next
    case (Some e)
    then show ?thesis by (simp add: auth_post_login_def find_user_def)
  qed
qed

theorem login_failures_witness:
  "cred_fault sample_credentials = None \<and>
   ''harrypotter'' \<in> user_name ` set (users sample_credentials) \<and>
   ''ron'' \<notin> user_name ` set (users sample_credentials) \<and>
   auth_post_login sample_tokens sample_users sample_credentials ''harrypotter'' ''alohomora'' =
     auth_post_login sample_tokens sample_users sample_credentials ''ron'' ''azkaban123'' \<and>
   auth_post_login sample_tokens sample_users sample_credentials ''ron'' ''azkaban123'' =
     Sent (send 401 (error_body msg_identifiants_invalides))"
proof -
  have h1: "cred_fault sample_credentials = None"
    by (simp add: sample_credentials_def)
  have h2: "''harrypotter'' \<in> user_name ` set (users sample_credentials)"
    by (simp add: sample_credentials_def harry_def)
  have h3: "\<forall>u \<in> set (users sample_credentials).
      user_name u = ''harrypotter'' \<longrightarrow> \<not> comparePassword sample_users (user_password u) ''alohomora''"
    by (simp add: sample_credentials_def harry_def sample_users_def)
  have h4: "''ron'' \<notin> user_name ` set (users sample_credentials)"
    by (simp add: sample_credentials_def harry_def)
  show ?thesis
    using login_failures_indistinguishable [OF h2 h3 h4, of sample_tokens "''azkaban123''"] h1 h2 h4
    by simp
qed

section \<open>Registration: failures of the insertion\<close>

text \<open>
  Claim C9. For a register request that passes the validation of its fields: when
  \<open>save\<close> is rejected with an error of code 11000 (the violation of the unique index) the
  response is status 500 with the fixed body \<open>{error: 'Erreur systeme'}\<close>, which names
  neither the user nor the cause; when it is rejected with any other error, the response
  is status 400 with the message of that error. In particular a name that is already in
  the store is answered with the generic 500.
\<close>

theorem register_insertion_failures:
  assumes "name_errors (sanitize_field bn) @ password_errors (sanitize_field bp) = []"
  shows "(\<forall>err. fst (save_user U C (sanitize_field bn) (sanitize_field bp)) = Rejected err \<longrightarrow>
            reply (auth_post_register U C bn bp) =
              (if err_code err = Some 11000 then send 500 (error_body msg_erreur_systeme)
               else send 400 (error_body (err_message err)))) \<and>
         (validate_user U (sanitize_field bn) (sanitize_field bp) = None \<and> cred_fault C = None \<and>
          sanitize_field bn \<in> user_name ` set (users C) \<longrightarrow>
            reply (auth_post_register U C bn bp) = send 500 (error_body msg_erreur_systeme))"
proof (intro conjI allI impI)
  fix err
  assume "fst (save_user U C (sanitize_field bn) (sanitize_field bp)) = Rejected err"
  then show "reply (auth_post_register U C bn bp) =
              (if err_code err = Some 11000 then send 500 (error_body msg_erreur_systeme)
               else send 400 (error_body (err_message err)))"
    using assms
    by (cases "save_user U C (sanitize_field bn) (sanitize_field bp)")
       (simp add: auth_post_register_def Let_def)
next
  assume a: "validate_user U (sanitize_field bn) (sanitize_field bp) = None \<and> cred_fault C = None \<and>
          sanitize_field bn \<in> user_name ` set (users C)"
  then have "save_user U C (sanitize_field bn) (sanitize_field bp) = (Rejected (duplicate_key_error ''name''), C)"
    by (simp add: save_user_def)
  then show "reply (auth_post_register U C bn bp) = send 500 (error_body msg_erreur_systeme)"
    using assms by (simp add: auth_post_register_def Let_def duplicate_key_error_def)
qed

theorem register_insertion_failures_witness:
  "name_errors (sanitize_field (Some ''harrypotter'')) @ password_errors (sanitize_field (Some ''123456'')) = [] \<and>
   validate_user sample_users (sanitize_field (Some ''harrypotter'')) (sanitize_field (Some ''123456'')) = None \<and>
   cred_fault sample_credentials = None \<and>
   sanitize_field (Some ''harrypotter'') \<in> user_name ` set (users sample_credentials) \<and>
   reply (auth_post_register sample_users sample_credentials (Some ''harrypotter'') (Some ''123456'')) =
     send 500 (error_body msg_erreur_systeme) \<and>
   name_errors (sanitize_field (Some ''hermione'')) @ password_errors (sanitize_field (Some ''123456'')) = [] \<and>
   fst (save_user sample_users (sample_credentials\<lparr>cred_fault := Some network_error\<rparr>)
          (sanitize_field (Some ''hermione'')) (sanitize_field (Some ''123456''))) = Rejected network_error \<and>
   err_code network_error \<noteq> Some 11000 \<and>
   reply (auth_post_register sample_users (sample_credentials\<lparr>cred_fault := Some network_error\<rparr>)
            (Some ''hermione'') (Some ''123456'')) =
     send 400 (error_body (err_message network_error))"
proof -
  have v1: "name_errors (sanitize_field (Some ''harrypotter'')) @ password_errors (sanitize_field (Some ''123456'')) = []"
    by (simp add: sanitize_plain name_errors_def password_errors_def char_count_def code_points_def)
  have v2: "name_errors (sanitize_field (Some ''hermione'')) @ password_errors (sanitize_field (Some ''123456'')) = []"
    by (simp add: sanitize_plain name_errors_def password_errors_def char_count_def code_points_def)
  have d: "validate_user sample_users (sanitize_field (Some ''harrypotter'')) (sanitize_field (Some ''123456'')) = None \<and>
    cred_fault sample_credentials = None \<and>
    sanitize_field (Some ''harrypotter'') \<in> user_name ` set (users sample_credentials)"
    by (simp add: sanitize_plain sample_users_def sample_credentials_def harry_def)
  have s: "fst (save_user sample_users (sample_credentials\<lparr>cred_fault := Some network_error\<rparr>)
          (sanitize_field (Some ''hermione'')) (sanitize_field (Some ''123456''))) = Rejected network_error"
    by (simp add: save_user_def sample_users_def)
  have c: "err_code network_error \<noteq> Some 11000"
    by (simp add: network_error_def)
  have r1: "reply (auth_post_register sample_users sample_credentials (Some ''harrypotter'') (Some ''123456'')) =
     send 500 (error_body msg_erreur_systeme)"
    using register_insertion_failures [OF v1, of sample_users sample_credentials] d by blast
  have r2: "reply (auth_post_register sample_users (sample_credentials\<lparr>cred_fault := Some network_error\<rparr>)
            (Some ''hermione'') (Some ''123456'')) =
     send 400 (error_body (err_message network_error))"
    using register_insertion_failures [OF v2, of sample_users "sample_credentials\<lparr>cred_fault := Some network_error\<rparr>"] s c
    by (metis (full_types))
  show ?thesis using v1 v2 d s c r1 r2 by blast
qed

section \<open>Creation of a potion\<close>

text \<open>
  A payload the schema accepts is saved and answered 201 with the saved record, which has
  an \<open>_id\<close>; a payload the schema refuses is answered 400 with the message of the
  validation error.
\<close>

lemma create_answers_201_with_id:
  assumes "validate_doc M b = Inr kvs" and "fault S = None"
    and "d = (case map_of kvs ''_id'' of
                None \<Rightarrow> JObj ((''_id'', JStr (fresh_id M (potions S))) # kvs)
              | Some _ \<Rightarrow> JObj kvs)"
    and "field ''_id'' d \<notin> set (map (field ''_id'') (potions S))"
  shows "create_potion M S b =
           \<lparr>reply = send 201 d, calls = [Save b], store_after = S\<lparr>potions := potions S @ [d]\<rparr>\<rparr> \<and>
         field ''_id'' d \<noteq> None"
proof -
  have "save_potion M S b = (Resolved d, S\<lparr>potions := potions S @ [d]\<rparr>)"
    using assms by (simp add: save_potion_def Let_def)
  moreover have "field ''_id'' d \<noteq> None"
    using assms(3) by (auto simp: field_def split: option.splits)
  ultimately show ?thesis
    by (simp add: create_potion_def)
qed

lemma create_validation_failure_answers_400:
  assumes "validate_doc M b = Inl e"
  shows "create_potion M S b =
           \<lparr>reply = send 400 (error_body (err_message e)), calls = [Save b], store_after = S\<rparr>"
  using assms by (simp add: save_potion_def create_potion_def)

text \<open>The route answers 201 or 400, whatever the store does.\<close>

lemma create_never_answers_500: "status (reply (create_potion M S b)) \<in> {201, 400}"
  by (cases "save_potion M S b" rule: prod.exhaust; cases "fst (save_potion M S b)")
     (auto simp: create_potion_def send_def)

text \<open>
  Claim C10, at the input where the code departs from it: an authenticated create whose
  \<open>save\<close> is rejected by a failure of the connection to the store (no validation error)
  is answered with status 400 and the message of the failure, where the claim, and the
  responses the route documents, ask for a system error (500).
\<close>

theorem create_store_failure_answers_400:
  "reply (router_post_root sample_auth sample_model (sample_store\<lparr>fault := Some network_error\<rparr>)
            [(''demo_node+mongo_token'', ''signed-token'')] elixir) =
     send 400 (error_body (err_message network_error))"
  by (simp add: router_post_root_def authMiddleware_def sample_auth_def create_potion_def
        save_potion_def sample_model_def any_object_def elixir_def sample_store_def)

section \<open>The dynamic aggregation: validation of the parameters\<close>

text \<open>
  The rejection holds when the metric is not a property of \<open>allowedMetrics\<close> at all, own
  or inherited, when \<open>groupBy\<close> is missing, and when the field is missing for a metric
  other than count: status 400, and no call on the store.
\<close>

lemma search_rejects_parameters:
  assumes "allowedMetrics (to_string metric) = Undefined \<or> not_param groupBy \<or>
           (not_param fld \<and> metric \<noteq> Some ''count'')"
  shows "analytics_get_search S groupBy metric fld =
           \<lparr>reply = send 400 (error_body msg_parametres_invalides), calls = [], store_after = S\<rparr>"
  using assms by (auto simp: analytics_get_search_def Let_def not_jsval_def)

lemma allowedMetrics_undefined_iff:
  "allowedMetrics k = Undefined \<longleftrightarrow>
     k \<notin> set [''avg'', ''sum'', ''count'', ''constructor'', ''hasOwnProperty'', ''isPrototypeOf'',
               ''propertyIsEnumerable'', ''toLocaleString'', ''toString'', ''valueOf'',
               ''__defineGetter__'', ''__defineSetter__'', ''__lookupGetter__'',
               ''__lookupSetter__'', ''__proto__'']"
  by (simp add: allowedMetrics_def object_prototype_def)

text \<open>
  Claim C3, at the input where the code departs from it: the metric \<open>constructor\<close> is
  not one of avg, sum, count, yet the lookup in \<open>allowedMetrics\<close> finds the member
  inherited from \<open>Object.prototype\<close>, the request is not rejected with status 400, and an
  aggregation is sent to the store, which refuses the accumulator (status 500).
\<close>

theorem search_inherited_metric_reaches_store:
  "status (reply (analytics_get_search sample_store
             (Some ''vendor_id'') (Some ''constructor'') (Some ''score''))) = 500 \<and>
   calls (analytics_get_search sample_store (Some ''vendor_id'') (Some ''constructor'') (Some ''score'')) =
     [Aggregate (Group (Str ''$vendor_id'') ''result'' ''function Object() { [native code] }''
        (Str ''$score''))]"
  by (simp add: analytics_get_search_def allowedMetrics_def object_prototype_def to_string_def
        not_jsval_def not_param_def group_stage_of_def to_property_key_def aggregate_def
        run_stage_def sample_store_def parse_ref_def valid_name_def Let_def send_def)

section \<open>Listing by price range\<close>

text \<open>A bound is read as \<open>NaN\<close> exactly when it is absent or does not look like a number.\<close>

lemma parse_unsigned_NaN_iff: "parse_unsigned t = NaN \<longleftrightarrow> \<not> starts_number t"
proof (cases t)
  case Nil
  then show ?thesis by (simp add: parse_unsigned_def starts_number_def)
next
  case (Cons c r)
  show ?thesis
  proof (cases "take 8 t = ''Infinity''")
    case True
    then show ?thesis by (simp add: parse_unsigned_def starts_number_def)
  next
    case False
    show ?thesis
    proof (cases "is_digit c")
      case True
      then show ?thesis using Cons False
        by (simp add: parse_unsigned_def starts_number_def Let_def to_double_not_NaN)
    next
      case nd: False
      show ?thesis
      proof (cases r)
        case Nil
        then show ?thesis using Cons False nd
          by (simp add: parse_unsigned_def starts_number_def Let_def to_double_not_NaN)
      next
        case (Cons c' r')
        then show ?thesis using \<open>t = c # r\<close> False nd
          by (simp add: parse_unsigned_def starts_number_def Let_def to_double_not_NaN)
      qed
    qed
  qed
qed

lemma negate_NaN_iff: "negate x = NaN \<longleftrightarrow> x = NaN"
  by (cases x) (simp_all add: negate_def)

lemma parseFloat_NaN_iff:
  "isNaN (parseFloat q) \<longleftrightarrow> (case q of None \<Rightarrow> True | Some s \<Rightarrow> \<not> starts_number (unsigned_part s))"
proof (cases q)
  case None
  then show ?thesis
    by (simp add: isNaN_def parseFloat_def parseFloat_string_def ltrim.simps ws_start_def is_ws_def
          parse_unsigned_def is_digit_def Let_def)
next
  case (Some s)
  then show ?thesis
    by (simp add: isNaN_def parseFloat_def parseFloat_string_def unsigned_part_def Let_def
          parse_unsigned_NaN_iff negate_NaN_iff)
qed

text \<open>
  The digits of an integer are read up to the first character that does not continue the
  number, whatever follows.
\<close>

lemma takeWhile_digits:
  assumes "list_all is_digit ds" and "case r of [] \<Rightarrow> True | c # _ \<Rightarrow> \<not> is_digit c"
  shows "takeWhile is_digit (ds @ r) = ds" and "dropWhile is_digit (ds @ r) = r"
  using assms by (auto simp: list_all_iff split: list.splits)

lemma ends_not_digit:
  "ends_integer r \<Longrightarrow> case r of [] \<Rightarrow> True | c # _ \<Rightarrow> \<not> is_digit c"
  "ends_fraction r \<Longrightarrow> case r of [] \<Rightarrow> True | c # _ \<Rightarrow> \<not> is_digit c"
  by (auto simp: ends_integer_def ends_fraction_def split: list.splits)

lemma parse_unsigned_integer:
  assumes "ds \<noteq> []" and "list_all is_digit ds" and "ends_integer r"
  shows "parse_unsigned (ds @ r) = to_double (of_nat (digits_val ds))"
proof -
  obtain c cs where ds: "ds = c # cs" using assms(1) by (cases ds) auto
  with assms(2) have c: "is_digit c" by simp
  then have inf: "take 8 (ds @ r) \<noteq> ''Infinity''"
    using ds by (auto simp: is_digit_def)
  have dot: "take 1 r \<noteq> ''.''" and ex: "exponent_of r = 0"
    using assms(3) by (auto simp: ends_integer_def exponent_of_def split: list.splits)
  show ?thesis
    using inf dot ex assms(1) takeWhile_digits [OF assms(2) ends_not_digit(1) [OF assms(3)]]
    by (simp add: parse_unsigned_def Let_def scale10_def digits_val_def)
qed

lemma parse_unsigned_decimal:
  assumes "ds \<noteq> []" and "list_all is_digit ds" and "list_all is_digit fs" and "ends_fraction r"
  shows "parse_unsigned (ds @ CHR ''.'' # fs @ r) = to_double (decimal ds fs)"
proof -
  obtain c cs where ds: "ds = c # cs" using assms(1) by (cases ds) auto
  with assms(2) have c: "is_digit c" by simp
  then have inf: "take 8 (ds @ CHR ''.'' # fs @ r) \<noteq> ''Infinity''"
    using ds by (auto simp: is_digit_def)
  have nd: "case CHR ''.'' # fs @ r of [] \<Rightarrow> True | c # _ \<Rightarrow> \<not> is_digit c"
    by (simp add: is_digit_def)
  have ex: "exponent_of r = 0"
    using assms(4) by (auto simp: ends_fraction_def exponent_of_def split: list.splits)
  show ?thesis
    using inf ex assms(1) takeWhile_digits [OF assms(2) nd]
      takeWhile_digits [OF assms(3) ends_not_digit(2) [OF assms(4)]]
    by (simp add: parse_unsigned_def Let_def scale10_def decimal_def)
qed

lemma ws_first:
  "is_ws (c # bs) \<Longrightarrow> (of_char c :: nat) \<in> {9, 10, 11, 12, 13, 32, 0xC2, 0xE1, 0xE2, 0xE3, 0xEF}"
  by (auto simp: is_ws_def Let_def)

lemma digit_code: "is_digit c \<Longrightarrow> 48 \<le> (of_char c :: nat) \<and> (of_char c :: nat) \<le> 57"
  by (auto simp: is_digit_def)

lemma digit_not_ws:
  assumes "is_digit c"
  shows "ltrim (c # r) = c # r"
proof -
  have "\<not> is_ws (c # bs)" for bs
    using ws_first [of c bs] digit_code [OF assms] by auto
  then have "ws_start (c # r) = 0"
    by (simp add: ws_start_def)
  then show ?thesis by (simp add: ltrim.simps)
qed

lemma minus_not_ws: "ltrim (CHR ''-'' # r) = CHR ''-'' # r"
proof -
  have "\<not> is_ws (CHR ''-'' # bs)" for bs
    using ws_first [of "CHR ''-''" bs] by auto
  then have "ws_start (CHR ''-'' # r) = 0"
    by (simp add: ws_start_def)
  then show ?thesis by (simp add: ltrim.simps)
qed

lemma parseFloat_unsigned:
  assumes "ds \<noteq> []" and "list_all is_digit ds"
  shows "parseFloat (Some (ds @ r)) = parse_unsigned (ds @ r)"
    and "parseFloat (Some (CHR ''-'' # ds @ r)) = negate (parse_unsigned (ds @ r))"
proof -
  obtain c cs where ds: "ds = c # cs" using assms(1) by (cases ds) auto
  with assms(2) have c: "is_digit c" by simp
  have t: "ltrim (ds @ r) = ds @ r"
    using digit_not_ws [OF c, of "cs @ r"] ds by simp
  have sg: "take 1 (ds @ r) \<noteq> ''-''" "take 1 (ds @ r) \<noteq> ''+''"
    using c ds by (auto simp: is_digit_def)
  show "parseFloat (Some (ds @ r)) = parse_unsigned (ds @ r)"
    using t sg by (simp add: parseFloat_def parseFloat_string_def Let_def)
  show "parseFloat (Some (CHR ''-'' # ds @ r)) = negate (parse_unsigned (ds @ r))"
    by (simp add: parseFloat_def parseFloat_string_def Let_def minus_not_ws)
qed

lemma parseFloat_integer:
  assumes "ds \<noteq> []" and "list_all is_digit ds" and "ends_integer r"
  shows "parseFloat (Some (ds @ r)) = to_double (of_nat (digits_val ds))"
    and "parseFloat (Some (CHR ''-'' # ds @ r)) = to_double (- of_nat (digits_val ds))"
  using parseFloat_unsigned [OF assms(1,2), of r] parse_unsigned_integer [OF assms]
  by (simp_all add: negate_to_double)

lemma parseFloat_decimal:
  assumes "ds \<noteq> []" and "list_all is_digit ds" and "list_all is_digit fs" and "ends_fraction r"
  shows "parseFloat (Some (ds @ CHR ''.'' # fs @ r)) = to_double (decimal ds fs)"
    and "parseFloat (Some (CHR ''-'' # ds @ CHR ''.'' # fs @ r)) = to_double (- decimal ds fs)"
  using parseFloat_unsigned [OF assms(1,2), of "CHR ''.'' # fs @ r"] parse_unsigned_decimal [OF assms]
  by (simp_all add: negate_to_double)

text \<open>The filter the route builds selects the potions of the interval.\<close>

lemma cond_holds_gte: "cond_holds (field ''price'' d) (Gte, a) = above (Some a) d"
  by (simp add: cond_holds_def above_def price_of_def split: option.splits)

lemma cond_holds_lte: "cond_holds (field ''price'' d) (Lte, b) = below (Some b) d"
  by (simp add: cond_holds_def below_def price_of_def split: option.splits)

lemma matches_price_query:
  "matches (price_query qmin qmax) d = in_price_range (bound_of qmin) (bound_of qmax) d"
  by (simp add: price_query_def matches_def in_price_range_def bound_of_def Let_def
        cond_holds_gte cond_holds_lte above_def below_def)

lemma price_range_answer:
  assumes "fault S = None"
  shows "reply (router_get_price_range S qmin qmax) =
           send 200 (JArr (filter (in_price_range (bound_of qmin) (bound_of qmax)) (potions S)))"
  using assms
  by (simp add: router_get_price_range_def find_potions_def Let_def matches_price_query cong: filter_cong)

lemma in_price_range_cases:
  "in_price_range (Some (Finite a)) (Some (Finite b)) =
     (\<lambda>d. case price_of d of Some (Finite x) \<Rightarrow> a \<le> x \<and> x \<le> b | _ \<Rightarrow> False)"
  "in_price_range (Some (Finite a)) None =
     (\<lambda>d. case price_of d of Some (Finite x) \<Rightarrow> a \<le> x | Some PosInfinity \<Rightarrow> True | _ \<Rightarrow> False)"
  "in_price_range None None = (\<lambda>d. True)"
  by (auto simp: in_price_range_def above_def below_def fun_eq_iff split: option.splits jsnum.splits)

text \<open>
  Claim C6, as the code has it. When the store answers, \<open>GET /potions/price-range\<close>
  answers 200 with exactly the potions of the catalog, in its order, whose price lies
  between the bounds that the two parameters give; no input makes it an error. A
  parameter gives no bound exactly when it is absent or does not start, after white space
  and a sign, like a number. A parameter that starts with the digits of an integer, or
  with those of a decimal number with a fraction, gives the double nearest to that
  number, whatever follows the digits, and its negation behind a minus sign. With two
  finite bounds the potions returned are those with
  \<open>min \<le> price \<le> max\<close>, with only a finite lower bound those with \<open>price \<ge> min\<close>, and
  without bounds all potions.
\<close>

theorem price_range_exact:
  assumes "fault S = None"
  shows "reply (router_get_price_range S qmin qmax) =
           send 200 (JArr (filter (in_price_range (bound_of qmin) (bound_of qmax)) (potions S))) \<and>
         (bound_of q = None \<longleftrightarrow>
            (case q of None \<Rightarrow> True | Some s \<Rightarrow> \<not> starts_number (unsigned_part s))) \<and>
         (ds \<noteq> [] \<and> list_all is_digit ds \<and> ends_integer r \<longrightarrow>
            bound_of (Some (ds @ r)) = Some (to_double (of_nat (digits_val ds))) \<and>
            bound_of (Some (CHR ''-'' # ds @ r)) = Some (to_double (- of_nat (digits_val ds)))) \<and>
         (ds \<noteq> [] \<and> list_all is_digit ds \<and> list_all is_digit fs \<and> ends_fraction r' \<longrightarrow>
            bound_of (Some (ds @ CHR ''.'' # fs @ r')) = Some (to_double (decimal ds fs)) \<and>
            bound_of (Some (CHR ''-'' # ds @ CHR ''.'' # fs @ r')) = Some (to_double (- decimal ds fs))) \<and>
         (bound_of qmin = Some (Finite a) \<and> bound_of qmax = Some (Finite b) \<longrightarrow>
            reply (router_get_price_range S qmin qmax) =
              send 200 (JArr [d \<leftarrow> potions S.
                 case price_of d of Some (Finite x) \<Rightarrow> a \<le> x \<and> x \<le> b | _ \<Rightarrow> False])) \<and>
         (bound_of qmin = Some (Finite a) \<and> bound_of qmax = None \<longrightarrow>
            reply (router_get_price_range S qmin qmax) =
              send 200 (JArr [d \<leftarrow> potions S.
                 case price_of d of Some (Finite x) \<Rightarrow> a \<le> x | Some PosInfinity \<Rightarrow> True | _ \<Rightarrow> False])) \<and>
         (bound_of qmin = None \<and> bound_of qmax = None \<longrightarrow>
            reply (router_get_price_range S qmin qmax) = send 200 (JArr (potions S)))"
proof -
  note main = price_range_answer [OF assms, of qmin qmax]
  have absent: "bound_of q = None \<longleftrightarrow>
      (case q of None \<Rightarrow> True | Some s \<Rightarrow> \<not> starts_number (unsigned_part s))"
    using parseFloat_NaN_iff [of q] by (simp add: bound_of_def)
  have prefix: "bound_of (Some (ds @ r)) = Some (to_double (of_nat (digits_val ds))) \<and>
      bound_of (Some (CHR ''-'' # ds @ r)) = Some (to_double (- of_nat (digits_val ds)))"
    if "ds \<noteq> [] \<and> list_all is_digit ds \<and> ends_integer r"
    using that parseFloat_integer [of ds r]
    by (simp add: bound_of_def isNaN_def to_double_not_NaN)
  have fraction: "bound_of (Some (ds @ CHR ''.'' # fs @ r')) = Some (to_double (decimal ds fs)) \<and>
      bound_of (Some (CHR ''-'' # ds @ CHR ''.'' # fs @ r')) = Some (to_double (- decimal ds fs))"
    if "ds \<noteq> [] \<and> list_all is_digit ds \<and> list_all is_digit fs \<and> ends_fraction r'"
    using that parseFloat_decimal [of ds fs r']
    by (simp add: bound_of_def isNaN_def to_double_not_NaN)
  have both: "reply (router_get_price_range S qmin qmax) =
      send 200 (JArr [d \<leftarrow> potions S.
         case price_of d of Some (Finite x) \<Rightarrow> a \<le> x \<and> x \<le> b | _ \<Rightarrow> False])"
    if "bound_of qmin = Some (Finite a) \<and> bound_of qmax = Some (Finite b)"
    using that main by (simp add: in_price_range_cases)
  have lower: "reply (router_get_price_range S qmin qmax) =
      send 200 (JArr [d \<leftarrow> potions S.
         case price_of d of Some (Finite x) \<Rightarrow> a \<le> x | Some PosInfinity \<Rightarrow> True | _ \<Rightarrow> False])"
    if "bound_of qmin = Some (Finite a) \<and> bound_of qmax = None"
    using that main by (simp add: in_price_range_cases)
  have none: "reply (router_get_price_range S qmin qmax) = send 200 (JArr (potions S))"
    if "bound_of qmin = None \<and> bound_of qmax = None"
    using that main by (simp add: in_price_range_cases)
  show ?thesis
    using main absent prefix fraction both lower none by blast
qed

text \<open>What \<open>parseFloat\<close> reads from some parameters.\<close>

lemmas parse_simps =
  parseFloat_def parseFloat_string_def ltrim.simps ws_start_def is_ws_def parse_unsigned_def
  is_digit_def digits_val_def exponent_of_def scale10_def negate_def double_simps

lemma parse_samples:
  "parseFloat (Some ''12.5'') = Finite (25 / 2)"
  "parseFloat (Some ''40'') = Finite 40"
  "parseFloat (Some ''abc'') = NaN"
  "parseFloat None = NaN"
  "parseFloat (Some []) = NaN"
  "parseFloat (Some '' -1.5e1xyz'') = Finite (- 15)"
  "parseFloat (Some ''25E-2'') = Finite (1 / 4)"
  "parseFloat (Some ''1e400'') = PosInfinity"
  by (simp_all add: parse_simps)

lemma parse_rounded:
  "parseFloat (Some ''0.1'') = Finite (3602879701896397 / 36028797018963968)"
  "parseFloat (Some ''9007199254740993'') = Finite 9007199254740992"
  "parseFloat (Some ''1e-400'') = Finite 0"
  "parseFloat (Some ''-Infinity'') = NegInfinity"
  by (simp_all add: parse_simps)

lemma bound_samples:
  "bound_of (Some ''12.5'') = Some (Finite (25 / 2))"
  "bound_of (Some ''40'') = Some (Finite 40)"
  "bound_of (Some ''abc'') = None"
  "bound_of None = None"
  "bound_of (Some '' -1.5e1xyz'') = Some (Finite (- 15))"
  "bound_of (Some ''25E-2'') = Some (Finite (1 / 4))"
  "bound_of (Some ''1e400'') = Some PosInfinity"
  by (simp_all add: bound_of_def isNaN_def parse_samples)

lemma sample_prices:
  "price_of potion_a = Some (Finite 12)" "price_of potion_b = Some (Finite 30)"
  "price_of potion_c = Some (Finite (99 / 2))"
  by (simp_all add: price_of_def as_number_def field_def potion_a_def potion_b_def potion_c_def)

text \<open>
  On the sample catalog, with prices 12, 30 and 49.5: the bounds 12.5 and 40; a lower
  bound with a sign, an exponent and a tail, and no upper bound; no bounds; the bounds
  0.25 and infinity; and the parameter \<open>40abc\<close>, which gives the bound 40.
\<close>

theorem price_range_witness:
  "fault sample_store = None \<and>
   bound_of (Some ''12.5'') = Some (Finite (25 / 2)) \<and> bound_of (Some ''40'') = Some (Finite 40) \<and>
   reply (router_get_price_range sample_store (Some ''12.5'') (Some ''40'')) = send 200 (JArr [potion_b]) \<and>
   bound_of (Some '' -1.5e1xyz'') = Some (Finite (- 15)) \<and> bound_of (Some ''abc'') = None \<and>
   reply (router_get_price_range sample_store (Some '' -1.5e1xyz'') (Some ''abc'')) =
     send 200 (JArr [potion_a, potion_b, potion_c]) \<and>
   bound_of None = None \<and>
   reply (router_get_price_range sample_store None (Some ''abc'')) =
     send 200 (JArr [potion_a, potion_b, potion_c]) \<and>
   bound_of (Some ''25E-2'') = Some (Finite (1 / 4)) \<and> bound_of (Some ''1e400'') = Some PosInfinity \<and>
   reply (router_get_price_range sample_store (Some ''25E-2'') (Some ''1e400'')) =
     send 200 (JArr [potion_a, potion_b, potion_c]) \<and>
   ''40'' \<noteq> [] \<and> list_all is_digit ''40'' \<and> ends_integer ''abc'' \<and>
   bound_of (Some ''40abc'') = Some (Finite 40) \<and> bound_of (Some ''-40abc'') = Some (Finite (- 40)) \<and>
   list_all is_digit ''125'' \<and> ends_fraction '' euros'' \<and>
   bound_of (Some ''40.125 euros'') = Some (Finite (321 / 8)) \<and>
   bound_of (Some ''-40.125 euros'') = Some (Finite (- (321 / 8)))"
proof -
  have f: "fault sample_store = None"
    by (simp add: sample_store_def)
  have p: "potions sample_store = [potion_a, potion_b, potion_c]"
    by (simp add: sample_store_def)
  note t = price_range_exact [OF f]
  have r1: "reply (router_get_price_range sample_store (Some ''12.5'') (Some ''40'')) = send 200 (JArr [potion_b])"
    using t [where qmin = "Some ''12.5''" and qmax = "Some ''40''" and a = "25 / 2" and b = 40,
        THEN conjunct2, THEN conjunct2, THEN conjunct2, THEN conjunct2, THEN conjunct1]
    by (simp add: bound_samples p sample_prices)
  have r2: "reply (router_get_price_range sample_store (Some '' -1.5e1xyz'') (Some ''abc'')) =
     send 200 (JArr [potion_a, potion_b, potion_c])"
    using t [where qmin = "Some '' -1.5e1xyz''" and qmax = "Some ''abc''" and a = "- 15",
        THEN conjunct2, THEN conjunct2, THEN conjunct2, THEN conjunct2, THEN conjunct2, THEN conjunct1]
    by (simp add: bound_samples p sample_prices)
  have r3: "reply (router_get_price_range sample_store None (Some ''abc'')) =
     send 200 (JArr [potion_a, potion_b, potion_c])"
    using t [where qmin = None and qmax = "Some ''abc''",
        THEN conjunct2, THEN conjunct2, THEN conjunct2, THEN conjunct2, THEN conjunct2, THEN conjunct2]
    by (simp add: bound_samples p)
  have r4: "reply (router_get_price_range sample_store (Some ''25E-2'') (Some ''1e400'')) =
     send 200 (JArr [potion_a, potion_b, potion_c])"
    using t [where qmin = "Some ''25E-2''" and qmax = "Some ''1e400''", THEN conjunct1]
    by (simp add: bound_samples p sample_prices in_price_range_def above_def below_def)
  have d: "''40'' \<noteq> [] \<and> list_all is_digit ''40'' \<and> ends_integer ''abc''"
    by (simp add: is_digit_def ends_integer_def)
  have v: "to_double (of_nat (digits_val ''40'')) = Finite 40"
    "to_double (- of_nat (digits_val ''40'')) = Finite (- 40)"
    by (simp_all add: digits_val_def double_simps)
  have r5: "bound_of (Some ''40abc'') = Some (Finite 40) \<and> bound_of (Some ''-40abc'') = Some (Finite (- 40))"
    using t [where ds = "''40''" and r = "''abc''", THEN conjunct2, THEN conjunct2, THEN conjunct1] d v
    by simp
  have d': "''40'' \<noteq> [] \<and> list_all is_digit ''40'' \<and> list_all is_digit ''125'' \<and> ends_fraction '' euros''"
    by (simp add: is_digit_def ends_fraction_def)
  have v': "to_double (decimal ''40'' ''125'') = Finite (321 / 8)"
    "to_double (- decimal ''40'' ''125'') = Finite (- (321 / 8))"
    by (simp_all add: decimal_def digits_val_def double_simps)
  have r6: "bound_of (Some ''40.125 euros'') = Some (Finite (321 / 8)) \<and>
      bound_of (Some ''-40.125 euros'') = Some (Finite (- (321 / 8)))"
    using t [where ds = "''40''" and fs = "''125''" and r' = "'' euros''",
        THEN conjunct2, THEN conjunct2, THEN conjunct2, THEN conjunct1] d' v'
    by simp
  show ?thesis
    using f r1 r2 r3 r4 r5 r6 d d' by (simp add: bound_samples)
qed

text \<open>
  The claim as the spec words it (a bound that is not numeric leaves its side
  unconstrained) fails: the parameters \<open>40abc\<close> and \<open>12,5\<close> are not numbers, yet the
  first is used as the lower bound 40 and the second as the upper bound 12, where
  unconstrained sides would return the three potions.
\<close>

theorem price_range_trailing_characters_constrain:
  "reply (router_get_price_range sample_store (Some ''40abc'') None) = send 200 (JArr [potion_c]) \<and>
   reply (router_get_price_range sample_store None (Some ''12,5'')) = send 200 (JArr [potion_a]) \<and>
   reply (router_get_price_range sample_store None None) =
     send 200 (JArr [potion_a, potion_b, potion_c])"
proof -
  have b: "parseFloat (Some ''40abc'') = Finite 40" "parseFloat (Some ''12,5'') = Finite 12"
    "parseFloat None = NaN"
    by (simp_all add: parse_simps)
  have q: "price_query (Some ''40abc'') None = [(''price'', [(Gte, Finite 40)])]"
    "price_query None (Some ''12,5'') = [(''price'', [(Lte, Finite 12)])]"
    "price_query None None = []"
    by (simp_all add: price_query_def b isNaN_def)
  show ?thesis
    by (simp add: router_get_price_range_def q find_potions_def sample_store_def matches_def
          cond_holds_def as_number_def field_def potion_a_def potion_b_def potion_c_def)
qed

section \<open>The ratio of strength to flavor\<close>

lemma map_ok_related:
  assumes "\<forall>x \<in> set xs. \<exists>y. f x = Inr y \<and> P x y"
  shows "\<exists>ys. map_ok f xs = Inr ys \<and> list_all2 P xs ys"
  using assms
proof (induction xs)
  case Nil
  then show ?case by simp
next
  case (Cons x xs)
  then obtain y where y: "f x = Inr y" "P x y" by auto
  from Cons obtain ys where ys: "map_ok f xs = Inr ys" "list_all2 P xs ys" by auto
  from y ys show ?case by simp
qed

lemma map_ok_error:
  "map_ok f xs = Inl e \<Longrightarrow> \<exists>x \<in> set xs. f x = Inl e"
  by (induction xs) (auto split: sum.splits)

lemma parse_ratings:
  "parse_ref ''$ratings.flavor'' = Inr (Root [''ratings'', ''flavor''])"
  "parse_ref ''$ratings.strength'' = Inr (Root [''ratings'', ''strength''])"
  by (simp_all add: parse_ref_def valid_name_def)

lemma check_ratio: "check_expr ratio_expr = None"
  by (simp add: ratio_expr_def parse_ratings)

text \<open>The path \<open>ratings.k\<close> reads the rating \<open>k\<close>, unless \<open>ratings\<close> is an array.\<close>

lemma eval_rating_path:
  assumes "case field ''ratings'' d of Some (JArr xs) \<Rightarrow> False | _ \<Rightarrow> True"
  shows "eval_path [''ratings'', k] d = rating k d"
proof (cases d)
  case (JObj kvs)
  show ?thesis
  proof (cases "map_of kvs ''ratings''")
    case None
    then show ?thesis using JObj by (simp add: rating_def field_def)
  next
    case (Some v)
    then show ?thesis using JObj assms
      by (cases v) (simp_all add: rating_def field_def split: option.splits)
  qed
qed (simp_all add: rating_def field_def)

text \<open>The projection divides only when the flavor is not the number 0.\<close>

lemma eval_ratio_expr:
  "eval_expr ratio_expr d =
     (if eval_path [''ratings'', ''flavor''] d = Some (JNum 0) then Inr (Some JNull)
      else divide_values (eval_path [''ratings'', ''strength''] d) (eval_path [''ratings'', ''flavor''] d))"
  by (simp add: ratio_expr_def parse_ratings truthy_def)

lemma as_number_zero: "as_number v = Some (Finite 0) \<longleftrightarrow> v = Some (JNum 0)"
  by (auto simp: as_number_def split: option.splits json.splits)

lemma as_number_nullish: "nullish v \<Longrightarrow> as_number v = None"
  by (auto simp: as_number_def nullish_def)

lemma divide_values_cases:
  "divide_values x y =
     (case as_number x of
        None \<Rightarrow> (if nullish x \<or> nullish y then Inr (Some JNull) else Inl divide_type_error)
      | Some a \<Rightarrow>
          (case as_number y of
             None \<Rightarrow> (if nullish x \<or> nullish y then Inr (Some JNull) else Inl divide_type_error)
           | Some b \<Rightarrow> (if b = Finite 0 then Inl divide_by_zero_error
                        else Inr (Some (of_jsnum (divide_doubles a b))))))"
  by (simp add: divide_values_def split: option.splits)

lemma ratio_error:
  assumes "eval_expr ratio_expr d = Inl e"
  shows "e = divide_type_error"
  using assms
  by (auto simp: eval_ratio_expr divide_values_cases as_number_zero split: if_splits option.splits)

lemma ratio_value:
  assumes "ratings_are_numbers d"
  shows "\<exists>w. eval_expr ratio_expr d = Inr (Some w) \<and>
           (rating ''flavor'' d = Some (JNum 0) \<longrightarrow> w = JNull) \<and>
           (case (rating ''strength'' d, rating ''flavor'' d) of
              (Some (JNum s), Some (JNum f)) \<Rightarrow> f \<noteq> 0 \<longrightarrow> w = of_jsnum (to_double (s / f))
            | _ \<Rightarrow> True) \<and>
           (nullish (rating ''strength'' d) \<or> nullish (rating ''flavor'' d) \<longrightarrow> w = JNull)"
proof -
  let ?s = "rating ''strength'' d" and ?f = "rating ''flavor'' d"
  have na: "case field ''ratings'' d of Some (JArr xs) \<Rightarrow> False | _ \<Rightarrow> True"
    and hs: "nullish ?s \<or> as_number ?s \<noteq> None"
    and hf: "nullish ?f \<or> as_number ?f \<noteq> None"
    using assms by (simp_all add: ratings_are_numbers_def)
  have ev: "eval_expr ratio_expr d =
      (if ?f = Some (JNum 0) then Inr (Some JNull) else divide_values ?s ?f)"
    by (simp add: eval_ratio_expr eval_rating_path [OF na])
  show ?thesis
  proof (cases "?f = Some (JNum 0)")
    case True
    then show ?thesis using ev by (auto split: option.splits json.splits)
  next
    case nz: False
    show ?thesis
    proof (cases "nullish ?s \<or> nullish ?f")
      case True
      then have "divide_values ?s ?f = Inr (Some JNull)"
        by (auto simp: divide_values_cases as_number_nullish split: option.splits)
      moreover have "case (?s, ?f) of
              (Some (JNum s), Some (JNum f)) \<Rightarrow> f \<noteq> 0 \<longrightarrow> JNull = of_jsnum (to_double (s / f))
            | _ \<Rightarrow> True"
        using True by (auto simp: nullish_def split: option.splits json.splits)
      ultimately show ?thesis using ev nz by simp
    next
      case False
      with hs hf obtain a b where ab: "as_number ?s = Some a" "as_number ?f = Some b"
        by auto
      from nz ab have b: "b \<noteq> Finite 0"
        using as_number_zero [of ?f] by auto
      have dv: "divide_values ?s ?f = Inr (Some (of_jsnum (divide_doubles a b)))"
        using ab b by (simp add: divide_values_cases)
      have "case (?s, ?f) of
              (Some (JNum s), Some (JNum f)) \<Rightarrow>
                f \<noteq> 0 \<longrightarrow> of_jsnum (divide_doubles a b) = of_jsnum (to_double (s / f))
            | _ \<Rightarrow> True"
        using ab by (auto simp: as_number_def divide_doubles_def split: option.splits json.splits)
      then show ?thesis using ev nz dv False by simp
    qed
  qed
qed

lemma project_ratio:
  assumes "ratings_are_numbers d"
  shows "\<exists>r. project_doc [(''name'', Include), (''strengthFlavorRatio'', Compute ratio_expr)] d = Inr r \<and>
           reports_ratio d r"
proof -
  from ratio_value [OF assms] obtain w where
    w: "eval_expr ratio_expr d = Inr (Some w)"
    and z: "rating ''flavor'' d = Some (JNum 0) \<longrightarrow> w = JNull"
    and q: "case (rating ''strength'' d, rating ''flavor'' d) of
              (Some (JNum s), Some (JNum f)) \<Rightarrow> f \<noteq> 0 \<longrightarrow> w = of_jsnum (to_double (s / f))
            | _ \<Rightarrow> True"
    and n: "nullish (rating ''strength'' d) \<or> nullish (rating ''flavor'' d) \<longrightarrow> w = JNull"
    by blast
  let ?r = "JObj ((case field ''_id'' d of None \<Rightarrow> [] | Some i \<Rightarrow> [(''_id'', i)]) @
                  (case field ''name'' d of None \<Rightarrow> [] | Some v \<Rightarrow> [(''name'', v)]) @
                  [(''strengthFlavorRatio'', w)])"
  have p: "project_doc [(''name'', Include), (''strengthFlavorRatio'', Compute ratio_expr)] d = Inr ?r"
    using w by (simp add: project_doc_def)
  have f: "field ''_id'' ?r = field ''_id'' d" "field ''name'' ?r = field ''name'' d"
    "ratio_of ?r = Some w"
    by (auto simp: field_def ratio_of_def split: option.splits)
  have "reports_ratio d ?r"
    unfolding reports_ratio_def f using z q n by (auto split: option.splits json.splits)
  with p show ?thesis by blast
qed

text \<open>
  Claim C5. When the store answers, \<open>GET /analytics/strength-flavor-ratio\<close> never answers
  with the error of a division by zero. When moreover the ratings that the potions have
  are numbers, it answers 200 with one result per potion, in the order of the catalog,
  with the \<open>_id\<close> and the name of the potion and, as \<open>strengthFlavorRatio\<close>, \<open>null\<close> when the
  flavor is 0, the double quotient of strength by flavor when both are finite numbers and
  the flavor is not 0, and \<open>null\<close> when one of the two is \<open>null\<close> or absent.
\<close>

theorem strength_flavor_ratio:
  assumes "fault S = None"
  shows "reply (analytics_get_strength_flavor_ratio S) \<noteq>
           send 500 (error_body (err_message divide_by_zero_error)) \<and>
         ((\<forall>d \<in> set (potions S). ratings_are_numbers d) \<longrightarrow>
            (\<exists>out. reply (analytics_get_strength_flavor_ratio S) = send 200 (JArr out) \<and>
               list_all2 reports_ratio (potions S) out))"
proof (intro conjI impI)
  let ?ps = "[(''name'', Include), (''strengthFlavorRatio'', Compute ratio_expr)]"
  have run: "run_stage ratio_stage (potions S) = map_ok (project_doc ?ps) (potions S)"
    by (simp add: run_stage_def ratio_stage_def check_ratio)
  show "reply (analytics_get_strength_flavor_ratio S) \<noteq>
           send 500 (error_body (err_message divide_by_zero_error))"
  proof (cases "map_ok (project_doc ?ps) (potions S)")
    case (Inl e)
    then obtain d where "project_doc ?ps d = Inl e"
      using map_ok_error by blast
    then have "eval_expr ratio_expr d = Inl e"
      by (auto simp: project_doc_def split: sum.splits)
    then have "e = divide_type_error"
      by (rule ratio_error)
    then show ?thesis using assms run Inl
      by (simp add: analytics_get_strength_flavor_ratio_def aggregate_def send_def error_body_def
            divide_type_error_def divide_by_zero_error_def)
  next
    case (Inr out)
    then show ?thesis using assms run
      by (simp add: analytics_get_strength_flavor_ratio_def aggregate_def send_def)
  qed
  assume "\<forall>d \<in> set (potions S). ratings_are_numbers d"
  then have "\<forall>d \<in> set (potions S). \<exists>r. project_doc ?ps d = Inr r \<and> reports_ratio d r"
    using project_ratio by blast
  from map_ok_related [OF this] obtain out where
    out: "map_ok (project_doc ?ps) (potions S) = Inr out" "list_all2 reports_ratio (potions S) out"
    by blast
  have "reply (analytics_get_strength_flavor_ratio S) = send 200 (JArr out)"
    using assms run out(1) by (simp add: analytics_get_strength_flavor_ratio_def aggregate_def)
  with out(2) show "\<exists>out. reply (analytics_get_strength_flavor_ratio S) = send 200 (JArr out) \<and>
               list_all2 reports_ratio (potions S) out"
    by blast
qed

lemma sample_ratings:
  "rating ''strength'' potion_a = Some (JNum 4)" "rating ''flavor'' potion_a = Some (JNum 2)"
  "rating ''strength'' potion_b = Some (JNum 5)" "rating ''flavor'' potion_b = Some (JNum 0)"
  "rating ''strength'' potion_d = None" "rating ''flavor'' potion_d = None"
  "rating ''strength'' potion_e = Some (JNum (2 ^ 1023))" "rating ''flavor'' potion_e = Some (JNum (1 / 4))"
  by (simp_all add: rating_def field_def potion_a_def potion_b_def potion_d_def potion_e_def)

text \<open>The answer of the route on the second catalog, as the store computes it.\<close>

lemma ratio_route_on_mixed_store:
  "reply (analytics_get_strength_flavor_ratio mixed_store) =
     send 200 (JArr
       [JObj [(''_id'', JStr ''660bcf5fca6e9f06b8a2eecd''), (''name'', JStr ''Potion de soin''),
              (''strengthFlavorRatio'', JNum 2)],
        JObj [(''_id'', JStr ''660bcf5fca6e9f06b8a2eece''), (''name'', JStr ''Potion de feu''),
              (''strengthFlavorRatio'', JNull)],
        JObj [(''_id'', JStr ''660bcf5fca6e9f06b8a2eed0''), (''name'', JStr ''Eau de source''),
              (''strengthFlavorRatio'', JNull)],
        JObj [(''_id'', JStr ''660bcf5fca6e9f06b8a2eed1''), (''name'', JStr ''Essence''),
              (''strengthFlavorRatio'', JInfinity)]])"
  by (simp add: analytics_get_strength_flavor_ratio_def aggregate_def mixed_store_def run_stage_def
        ratio_stage_def ratio_expr_def parse_ref_def valid_name_def project_doc_def field_def
        truthy_def divide_values_def as_number_def nullish_def divide_doubles_def of_jsnum_def
        potion_a_def potion_b_def potion_d_def potion_e_def double_simps)

text \<open>
  On the second catalog: a quotient, a flavor 0, a potion without ratings, and a quotient
  of two doubles that is beyond the largest double.
\<close>

theorem strength_flavor_ratio_witness:
  "fault mixed_store = None \<and>
   list_all ratings_are_numbers (potions mixed_store) \<and>
   reply (analytics_get_strength_flavor_ratio mixed_store) \<noteq>
     send 500 (error_body (err_message divide_by_zero_error)) \<and>
   (\<exists>ra rb rd re.
      reply (analytics_get_strength_flavor_ratio mixed_store) = send 200 (JArr [ra, rb, rd, re]) \<and>
      field ''name'' ra = Some (JStr ''Potion de soin'') \<and>
      ratio_of ra = Some (JNum 2) \<and> ratio_of rb = Some JNull \<and> ratio_of rd = Some JNull \<and>
      ratio_of re = Some JInfinity) \<and>
   reply (analytics_get_strength_flavor_ratio mixed_store) =
     send 200 (JArr
       [JObj [(''_id'', JStr ''660bcf5fca6e9f06b8a2eecd''), (''name'', JStr ''Potion de soin''),
              (''strengthFlavorRatio'', JNum 2)],
        JObj [(''_id'', JStr ''660bcf5fca6e9f06b8a2eece''), (''name'', JStr ''Potion de feu''),
              (''strengthFlavorRatio'', JNull)],
        JObj [(''_id'', JStr ''660bcf5fca6e9f06b8a2eed0''), (''name'', JStr ''Eau de source''),
              (''strengthFlavorRatio'', JNull)],
        JObj [(''_id'', JStr ''660bcf5fca6e9f06b8a2eed1''), (''name'', JStr ''Essence''),
              (''strengthFlavorRatio'', JInfinity)]])"
proof -
  have f: "fault mixed_store = None"
    by (simp add: mixed_store_def)
  have p: "potions mixed_store = [potion_a, potion_b, potion_d, potion_e]"
    by (simp add: mixed_store_def)
  have h: "\<forall>d \<in> set (potions mixed_store). ratings_are_numbers d"
    by (simp add: p ratings_are_numbers_def rating_def nullish_def as_number_def field_def
          potion_a_def potion_b_def potion_d_def potion_e_def)
  note t = strength_flavor_ratio [OF f]
  from t h obtain out where
    out: "reply (analytics_get_strength_flavor_ratio mixed_store) = send 200 (JArr out)"
    and rel: "list_all2 reports_ratio [potion_a, potion_b, potion_d, potion_e] out"
    unfolding p by blast
  from rel obtain ra rb rd re where o: "out = [ra, rb, rd, re]"
    and r: "reports_ratio potion_a ra" "reports_ratio potion_b rb" "reports_ratio potion_d rd"
      "reports_ratio potion_e re"
    by (auto simp: list_all2_Cons1)
  have "field ''name'' ra = Some (JStr ''Potion de soin'')"
    using r(1) by (simp add: reports_ratio_def field_def potion_a_def)
  moreover have "ratio_of ra = Some (JNum 2)"
    using r(1) by (simp add: reports_ratio_def sample_ratings of_jsnum_def double_simps)
  moreover have "ratio_of rb = Some JNull"
    using r(2) by (simp add: reports_ratio_def sample_ratings)
  moreover have "ratio_of rd = Some JNull"
    using r(3) by (simp add: reports_ratio_def sample_ratings nullish_def)
  moreover have "ratio_of re = Some JInfinity"
    using r(4) by (simp add: reports_ratio_def sample_ratings of_jsnum_def double_simps)
  moreover have "list_all ratings_are_numbers (potions mixed_store)"
    using h by (simp add: list_all_iff)
  ultimately have "fault mixed_store = None \<and>
   list_all ratings_are_numbers (potions mixed_store) \<and>
   reply (analytics_get_strength_flavor_ratio mixed_store) \<noteq>
     send 500 (error_body (err_message divide_by_zero_error)) \<and>
   (\<exists>ra rb rd re.
      reply (analytics_get_strength_flavor_ratio mixed_store) = send 200 (JArr [ra, rb, rd, re]) \<and>
      field ''name'' ra = Some (JStr ''Potion de soin'') \<and>
      ratio_of ra = Some (JNum 2) \<and> ratio_of rb = Some JNull \<and> ratio_of rd = Some JNull \<and>
      ratio_of re = Some JInfinity)"
    using f t out o by blast
  then show ?thesis
    using ratio_route_on_mixed_store by blast
qed

section \<open>The dynamic aggregation: counting\<close>

text \<open>A well-formed path does not start with \<open>$\<close>, so the engine reads it as a field path.\<close>

lemma split_on_nonempty: "split_on c s \<noteq> []"
  by (induction s) (auto split: list.splits)

lemma valid_path_no_dollar:
  assumes "list_all valid_name (split_on (CHR ''.'') g)"
  shows "take 1 g \<noteq> ''$''"
proof (cases g)
  case Nil
  then show ?thesis by simp
next
  case (Cons x xs)
  show ?thesis
  proof
    assume "take 1 g = ''$''"
    with Cons have x: "x = CHR ''$''" by simp
    obtain w ws where w: "split_on (CHR ''.'') xs = w # ws"
      using split_on_nonempty [of "CHR ''.''" xs] by (cases "split_on (CHR ''.'') xs") auto
    with Cons x have "split_on (CHR ''.'') g = (CHR ''$'' # w) # ws" by simp
    with assms show False by (simp add: valid_name_def)
  qed
qed

lemma parse_ref_path:
  assumes "list_all valid_name (split_on (CHR ''.'') g)"
  shows "parse_ref (CHR ''$'' # g) = Inr (Root (split_on (CHR ''.'') g))"
proof -
  have "take 2 (CHR ''$'' # g) \<noteq> ''$$''"
    using valid_path_no_dollar [OF assms] by (cases g) auto
  then show ?thesis
    using assms by (simp add: parse_ref_def)
qed

lemma eval_group_key:
  assumes "list_all valid_name (split_on (CHR ''.'') g)"
  shows "eval_expr (Str (CHR ''$'' # g)) d = Inr (eval_path (split_on (CHR ''.'') g) d)"
    and "check_expr (Str (CHR ''$'' # g)) = None"
  using parse_ref_path [OF assms] by simp_all

lemma bump_keys:
  "map fst (bump k v gs) = (if k \<in> set (map fst gs) then map fst gs else map fst gs @ [k])"
proof (induction gs)
  case Nil
  show ?case by simp
next
  case (Cons e gs)
  obtain k' a where e: "e = (k', a)" by (cases e) auto
  show ?case
  proof (cases "k' = k")
    case True
    then show ?thesis using e by simp
  next
    case False
    then show ?thesis using e Cons.IH by (simp split: if_splits)
  qed
qed

lemma bump_lookup:
  "map_of (bump k v gs) k' =
     (if k' = k then Some (accumulate v (case map_of gs k of None \<Rightarrow> (0, 0) | Some a \<Rightarrow> a))
      else map_of gs k')"
  by (induction gs) auto

text \<open>The groups are kept one per key, each with the number of its documents.\<close>

lemma counted_empty: "counted g [] []"
  by (simp add: counted_def)

lemma counted_step:
  assumes "counted g ds gs"
  shows "counted g (ds @ [d]) (bump (key_at g d) (Some (JNum 1)) gs)"
proof -
  let ?k = "key_at g d"
  let ?gs = "bump ?k (Some (JNum 1)) gs"
  have dist: "distinct (map fst gs)"
    and dom: "set (map fst gs) = key_at g ` set ds"
    and look: "\<forall>k \<in> set (map fst gs). map_of gs k = Some (of_nat (count_at g ds k), count_at g ds k)"
    using assms unfolding counted_def by blast+
  have keys: "map fst ?gs = (if ?k \<in> set (map fst gs) then map fst gs else map fst gs @ [?k])"
    by (rule bump_keys)
  have d: "distinct (map fst ?gs)"
    using dist unfolding keys by simp
  have s: "set (map fst ?gs) = key_at g ` set (ds @ [d])"
    using dom unfolding keys by auto
  have c: "\<forall>k \<in> set (map fst ?gs).
      map_of ?gs k = Some (of_nat (count_at g (ds @ [d]) k), count_at g (ds @ [d]) k)"
  proof
    fix k assume k: "k \<in> set (map fst ?gs)"
    show "map_of ?gs k = Some (of_nat (count_at g (ds @ [d]) k), count_at g (ds @ [d]) k)"
    proof (cases "k = ?k")
      case True
      show ?thesis
      proof (cases "?k \<in> set (map fst gs)")
        case in_gs: True
        with look have "map_of gs ?k = Some (of_nat (count_at g ds ?k), count_at g ds ?k)"
          by blast
        then show ?thesis using True
          by (simp add: bump_lookup accumulate_def count_at_def)
      next
        case False
        then have none: "map_of gs ?k = None"
          by (simp add: map_of_eq_None_iff)
        from False dom have "?k \<notin> key_at g ` set ds"
          by simp
        then have "count_at g ds ?k = 0"
          unfolding count_at_def by (simp add: filter_empty_conv) (metis imageI)
        then show ?thesis using True none
          by (simp add: bump_lookup accumulate_def count_at_def)
      qed
    next
      case False
      with k have "k \<in> set (map fst gs)"
        unfolding keys by (auto split: if_splits)
      with look have "map_of gs k = Some (of_nat (count_at g ds k), count_at g ds k)"
        by blast
      then show ?thesis using False
        by (simp add: bump_lookup count_at_def)
    qed
  qed
  show ?thesis
    unfolding counted_def using d s c by blast
qed

lemma group_docs_counts:
  assumes "list_all valid_name (split_on (CHR ''.'') g)" and "counted g ds0 gs"
  shows "\<exists>gs'. group_docs (Str (CHR ''$'' # g)) (Lit (JNum 1)) ds gs = Inr gs' \<and> counted g (ds0 @ ds) gs'"
  using assms(2)
proof (induction ds arbitrary: ds0 gs)
  case Nil
  then show ?case by simp
next
  case (Cons d ds)
  have step: "counted g (ds0 @ [d]) (bump (key_at g d) (Some (JNum 1)) gs)"
    using Cons.prems by (rule counted_step)
  from Cons.IH [OF step] show ?case
    by (simp add: eval_group_key(1) [OF assms(1)] key_at_def group_key_def del: eval_expr.simps(2))
qed

lemma counted_output:
  assumes "counted g ds gs"
  shows "map (group_output ''count'' ''$sum'') gs = map (count_entry g ds) (map fst gs)"
proof -
  have "\<forall>e \<in> set gs. group_output ''count'' ''$sum'' e = count_entry g ds (fst e)"
  proof
    fix e assume e: "e \<in> set gs"
    obtain k a n where ekan: "e = (k, a, n)" by (cases e) auto
    have dist: "distinct (map fst gs)"
      and look: "\<forall>k \<in> set (map fst gs). map_of gs k = Some (of_nat (count_at g ds k), count_at g ds k)"
      using assms unfolding counted_def by blast+
    from dist e ekan have "map_of gs k = Some (a, n)"
      by simp
    moreover from e ekan have "k \<in> set (map fst gs)" by force
    ultimately have "a = of_nat (count_at g ds k)"
      using look by auto
    then show "group_output ''count'' ''$sum'' e = count_entry g ds (fst e)"
      using ekan by (simp add: group_output_def count_entry_def)
  qed
  then show ?thesis by simp
qed

text \<open>A name without a dot is a path of one name, and its value is the field of that name.\<close>

lemma split_on_no_separator: "c \<notin> set s \<Longrightarrow> split_on c s = [s]"
  by (induction s) auto

lemma key_at_name:
  assumes "CHR ''.'' \<notin> set g"
  shows "key_at g d = (case field g d of None \<Rightarrow> JNull | Some v \<Rightarrow> v)"
  by (cases d) (simp_all add: key_at_def split_on_no_separator [OF assms] field_def split: option.splits)

text \<open>A path that is not well-formed is refused before any document is read.\<close>

lemma refused_path:
  assumes "take 1 g \<noteq> ''$''" and "\<not> list_all valid_name (split_on (CHR ''.'') g)"
  shows "run_stage (Group (Str (CHR ''$'' # g)) out op oe) docs = Inl (field_path_error (CHR ''$'' # g))"
proof -
  have "take 2 (CHR ''$'' # g) \<noteq> ''$$''"
    using assms(1) by (cases g) auto
  then have "parse_ref (CHR ''$'' # g) = Inl (field_path_error (CHR ''$'' # g))"
    using assms(2) by (simp add: parse_ref_def)
  then show ?thesis
    by (simp add: run_stage_def)
qed

text \<open>
  Claim C4, as the code has it. A search with metric count sends the same aggregation
  and gets the same answer whatever field is supplied. When the store answers and
  \<open>groupBy\<close> is a well-formed field path (names separated by dots, none empty, none
  starting with \<open>$\<close>, none with a null byte), the answer is 200 with exactly one entry per
  distinct value of the \<open>groupBy\<close> field over the catalog (\<open>null\<close> for the documents
  without the field), and the entry of a value carries the number of documents with
  that value; for a \<open>groupBy\<close> without a dot, the value of a document is its field of that
  name. When \<open>groupBy\<close> does not start with \<open>$\<close> and is not a well-formed field path, the
  aggregation is sent and refused by the store, and the answer is a system error (500).
\<close>

theorem search_count_one_entry_per_value:
  "analytics_get_search S gb (Some ''count'') f1 = analytics_get_search S gb (Some ''count'') f2 \<and>
   (fault S = None \<and> g \<noteq> [] \<and> list_all valid_name (split_on (CHR ''.'') g) \<longrightarrow>
      (\<exists>ks. distinct ks \<and> set ks = key_at g ` set (potions S) \<and>
         reply (analytics_get_search S (Some g) (Some ''count'') f1) =
           send 200 (JArr (map (count_entry g (potions S)) ks)))) \<and>
   (CHR ''.'' \<notin> set g \<longrightarrow> key_at g d = (case field g d of None \<Rightarrow> JNull | Some v \<Rightarrow> v)) \<and>
   (fault S = None \<and> g \<noteq> [] \<and> take 1 g \<noteq> ''$'' \<and> \<not> list_all valid_name (split_on (CHR ''.'') g) \<longrightarrow>
      status (reply (analytics_get_search S (Some g) (Some ''count'') f1)) = 500 \<and>
      calls (analytics_get_search S (Some g) (Some ''count'') f1) =
        [Aggregate (Group (Str (CHR ''$'' # g)) ''count'' ''$sum'' (Lit (JNum 1)))])"
proof (intro conjI impI)
  show "analytics_get_search S gb (Some ''count'') f1 = analytics_get_search S gb (Some ''count'') f2"
    by (simp add: analytics_get_search_def group_stage_of_def Let_def)
next
  assume a: "fault S = None \<and> g \<noteq> [] \<and> list_all valid_name (split_on (CHR ''.'') g)"
  then have v: "list_all valid_name (split_on (CHR ''.'') g)" by simp
  from group_docs_counts [OF v counted_empty, of "potions S"] obtain gs where
    gs: "group_docs (Str (CHR ''$'' # g)) (Lit (JNum 1)) (potions S) [] = Inr gs"
    and c: "counted g (potions S) gs"
    by auto
  have run: "run_stage (Group (Str (CHR ''$'' # g)) ''count'' ''$sum'' (Lit (JNum 1))) (potions S) =
      Inr (map (count_entry g (potions S)) (map fst gs))"
    using eval_group_key(2) [OF v] gs counted_output [OF c]
    by (simp add: run_stage_def del: check_expr.simps(2))
  have "reply (analytics_get_search S (Some g) (Some ''count'') f1) =
      send 200 (JArr (map (count_entry g (potions S)) (map fst gs)))"
    using a run
    by (simp add: analytics_get_search_def group_stage_of_def Let_def allowedMetrics_def
          to_string_def not_jsval_def not_param_def aggregate_def)
  moreover have "distinct (map fst gs) \<and> set (map fst gs) = key_at g ` set (potions S)"
    using c by (simp add: counted_def)
  ultimately show "\<exists>ks. distinct ks \<and> set ks = key_at g ` set (potions S) \<and>
         reply (analytics_get_search S (Some g) (Some ''count'') f1) =
           send 200 (JArr (map (count_entry g (potions S)) ks))"
    by blast
next
  assume "CHR ''.'' \<notin> set g"
  then show "key_at g d = (case field g d of None \<Rightarrow> JNull | Some v \<Rightarrow> v)"
    by (rule key_at_name)
next
  assume a: "fault S = None \<and> g \<noteq> [] \<and> take 1 g \<noteq> ''$'' \<and>
    \<not> list_all valid_name (split_on (CHR ''.'') g)"
  then have run: "run_stage (Group (Str (CHR ''$'' # g)) ''count'' ''$sum'' (Lit (JNum 1))) (potions S) =
      Inl (field_path_error (CHR ''$'' # g))"
    by (simp add: refused_path)
  show "status (reply (analytics_get_search S (Some g) (Some ''count'') f1)) = 500"
    using a run
    by (simp add: analytics_get_search_def group_stage_of_def Let_def allowedMetrics_def
          to_string_def not_jsval_def not_param_def aggregate_def send_def)
  show "calls (analytics_get_search S (Some g) (Some ''count'') f1) =
        [Aggregate (Group (Str (CHR ''$'' # g)) ''count'' ''$sum'' (Lit (JNum 1)))]"
    using a
    by (simp add: analytics_get_search_def group_stage_of_def Let_def allowedMetrics_def
          to_string_def not_jsval_def not_param_def)
qed

lemma sample_keys:
  "key_at ''vendor_id'' potion_a = JStr ''v1''"
  "key_at ''vendor_id'' potion_b = JStr ''v1''"
  "key_at ''vendor_id'' potion_d = JNull"
  "key_at ''vendor_id'' potion_e = JStr ''v2''"
  by (simp_all add: key_at_def potion_a_def potion_b_def potion_d_def potion_e_def)

text \<open>The answer of the route on the second catalog, as the store computes it.\<close>

lemma search_count_on_mixed_store:
  "reply (analytics_get_search mixed_store (Some ''vendor_id'') (Some ''count'') (Some ''score'')) =
     send 200 (JArr
       [JObj [(''_id'', JStr ''v1''), (''count'', JNum 2)],
        JObj [(''_id'', JNull), (''count'', JNum 1)],
        JObj [(''_id'', JStr ''v2''), (''count'', JNum 1)]])"
  by (simp add: analytics_get_search_def group_stage_of_def Let_def allowedMetrics_def
        to_string_def not_jsval_def not_param_def aggregate_def run_stage_def parse_ref_def
        valid_name_def mixed_store_def group_key_def accumulate_def group_output_def
        potion_a_def potion_b_def potion_d_def potion_e_def)

text \<open>
  On the second catalog, grouped by vendor: two potions of the vendor \<open>v1\<close>, one without
  a vendor, one of the vendor \<open>v2\<close>; and a path with an empty name.
\<close>

theorem search_count_witness:
  "fault mixed_store = None \<and> ''vendor_id'' \<noteq> [] \<and>
   list_all valid_name (split_on (CHR ''.'') ''vendor_id'') \<and>
   (\<exists>ks. distinct ks \<and> set ks = {JStr ''v1'', JNull, JStr ''v2''} \<and>
      reply (analytics_get_search mixed_store (Some ''vendor_id'') (Some ''count'') (Some ''score'')) =
        send 200 (JArr (map (count_entry ''vendor_id'' (potions mixed_store)) ks))) \<and>
   count_entry ''vendor_id'' (potions mixed_store) (JStr ''v1'') =
     JObj [(''_id'', JStr ''v1''), (''count'', JNum 2)] \<and>
   count_entry ''vendor_id'' (potions mixed_store) JNull =
     JObj [(''_id'', JNull), (''count'', JNum 1)] \<and>
   count_entry ''vendor_id'' (potions mixed_store) (JStr ''v2'') =
     JObj [(''_id'', JStr ''v2''), (''count'', JNum 1)] \<and>
   analytics_get_search mixed_store (Some ''vendor_id'') (Some ''count'') (Some ''score'') =
     analytics_get_search mixed_store (Some ''vendor_id'') (Some ''count'') None \<and>
   CHR ''.'' \<notin> set ''vendor_id'' \<and> field ''vendor_id'' potion_d = None \<and>
   key_at ''vendor_id'' potion_d = JNull \<and>
   take 1 ''ratings..flavor'' \<noteq> ''$'' \<and>
   \<not> list_all valid_name (split_on (CHR ''.'') ''ratings..flavor'') \<and>
   status (reply (analytics_get_search mixed_store (Some ''ratings..flavor'') (Some ''count'') None)) = 500 \<and>
   reply (analytics_get_search mixed_store (Some ''vendor_id'') (Some ''count'') (Some ''score'')) =
     send 200 (JArr
       [JObj [(''_id'', JStr ''v1''), (''count'', JNum 2)],
        JObj [(''_id'', JNull), (''count'', JNum 1)],
        JObj [(''_id'', JStr ''v2''), (''count'', JNum 1)]])"
proof -
  have f: "fault mixed_store = None"
    by (simp add: mixed_store_def)
  have p: "potions mixed_store = [potion_a, potion_b, potion_d, potion_e]"
    by (simp add: mixed_store_def)
  have v: "list_all valid_name (split_on (CHR ''.'') ''vendor_id'')"
    by (simp add: valid_name_def)
  have img: "key_at ''vendor_id'' ` set (potions mixed_store) = {JStr ''v1'', JNull, JStr ''v2''}"
    by (auto simp: p sample_keys)
  note t = search_count_one_entry_per_value [where S = mixed_store and g = "''vendor_id''"
      and gb = "Some ''vendor_id''" and ?f1.0 = "Some ''score''" and ?f2.0 = None and d = potion_d]
  have e: "\<exists>ks. distinct ks \<and> set ks = {JStr ''v1'', JNull, JStr ''v2''} \<and>
      reply (analytics_get_search mixed_store (Some ''vendor_id'') (Some ''count'') (Some ''score'')) =
        send 200 (JArr (map (count_entry ''vendor_id'' (potions mixed_store)) ks))"
    using t f v unfolding img by blast
  have c1: "count_entry ''vendor_id'' (potions mixed_store) (JStr ''v1'') =
     JObj [(''_id'', JStr ''v1''), (''count'', JNum 2)]"
    by (simp add: count_entry_def count_at_def p sample_keys)
  have c2: "count_entry ''vendor_id'' (potions mixed_store) JNull =
     JObj [(''_id'', JNull), (''count'', JNum 1)]"
    by (simp add: count_entry_def count_at_def p sample_keys)
  have c3: "count_entry ''vendor_id'' (potions mixed_store) (JStr ''v2'') =
     JObj [(''_id'', JStr ''v2''), (''count'', JNum 1)]"
    by (simp add: count_entry_def count_at_def p sample_keys)
  have n: "CHR ''.'' \<notin> set ''vendor_id''" "field ''vendor_id'' potion_d = None"
    by (simp_all add: field_def potion_d_def)
  have k: "key_at ''vendor_id'' potion_d = JNull"
    using t n by simp
  have b: "take 1 ''ratings..flavor'' \<noteq> ''$''"
    "\<not> list_all valid_name (split_on (CHR ''.'') ''ratings..flavor'')"
    by (simp_all add: valid_name_def)
  have r: "status (reply (analytics_get_search mixed_store (Some ''ratings..flavor'') (Some ''count'') None)) = 500"
    using search_count_one_entry_per_value [where S = mixed_store and g = "''ratings..flavor''"
      and ?f1.0 = None] f b by simp
  show ?thesis
    using f v e c1 c2 c3 t n k b r search_count_on_mixed_store by blast
qed

text \<open>
  The claim as the spec words it (for every \<open>groupBy\<close> that is not missing) fails: the
  store refuses the path \<open>vendor_id.\<close>, which ends with a dot, and the answer is a 500
  without any count.
\<close>

theorem search_count_malformed_path:
  "status (reply (analytics_get_search sample_store (Some ''vendor_id.'') (Some ''count'') None)) = 500"
  by (simp add: analytics_get_search_def group_stage_of_def Let_def allowedMetrics_def
        to_string_def not_jsval_def not_param_def aggregate_def run_stage_def parse_ref_def
        valid_name_def sample_store_def send_def)

section \<open>Update and delete behind the session guard\<close>

lemma guard_rejects:
  assumes "no_session A ck"
  shows "authMiddleware A ck S h = \<lparr>reply = send 401 (unauthorized_body A), calls = [], store_after = S\<rparr>"
  using assms by (simp add: authMiddleware_def no_session_def split: option.splits)

lemma guard_passes:
  assumes "map_of ck (cookie_key A) = Some token" and "verify_token A token = Some user"
  shows "authMiddleware A ck S h = h user"
  using assms by (simp add: authMiddleware_def)

text \<open>
  Claim C7, as the code has it, with the guard as the spec describes it. A request to
  update or delete without a valid session cookie is answered 401, issues no call on the
  store and leaves it as it was. With a valid session, an identifier that casts to the
  type of \<open>_id\<close> and a store that answers, delete answers 404 when no potion has the
  identifier, and so does update when the schema casts its payload; the store is left
  as it was. With a valid session, an identifier that does not cast is answered by both
  with a system error (500) that carries the message of the cast error, and so is an
  update whose payload the schema does not cast; the store is left as it was.
\<close>

theorem update_delete_guarded:
  "(no_session A ck \<longrightarrow>
      router_post_id A M S ck i payload =
        \<lparr>reply = send 401 (unauthorized_body A), calls = [], store_after = S\<rparr> \<and>
      router_delete_id A M S ck i =
        \<lparr>reply = send 401 (unauthorized_body A), calls = [], store_after = S\<rparr>) \<and>
   (map_of ck (cookie_key A) = Some token \<and> verify_token A token = Some user \<and>
    cast_id M i = Inr oid \<and> fault S = None \<and> (\<forall>p \<in> set (potions S). \<not> has_id oid p) \<longrightarrow>
      reply (router_delete_id A M S ck i) = send 404 (error_body msg_potion_non_trouvee) \<and>
      store_after (router_delete_id A M S ck i) = S \<and>
      (cast_update M payload = Inr upd \<longrightarrow>
         reply (router_post_id A M S ck i payload) = send 404 (error_body msg_potion_non_trouvee) \<and>
         store_after (router_post_id A M S ck i payload) = S)) \<and>
   (map_of ck (cookie_key A) = Some token \<and> verify_token A token = Some user \<and>
    cast_id M i = Inl e \<longrightarrow>
      router_delete_id A M S ck i =
        \<lparr>reply = send 500 (error_body (err_message e)), calls = [FindByIdAndDelete i],
         store_after = S\<rparr> \<and>
      router_post_id A M S ck i payload =
        \<lparr>reply = send 500 (error_body (err_message e)), calls = [FindByIdAndUpdate i payload],
         store_after = S\<rparr>) \<and>
   (map_of ck (cookie_key A) = Some token \<and> verify_token A token = Some user \<and>
    cast_id M i = Inr oid \<and> cast_update M payload = Inl e \<longrightarrow>
      router_post_id A M S ck i payload =
        \<lparr>reply = send 500 (error_body (err_message e)), calls = [FindByIdAndUpdate i payload],
         store_after = S\<rparr>)"
proof (intro conjI impI)
  assume "no_session A ck"
  then show "router_post_id A M S ck i payload =
        \<lparr>reply = send 401 (unauthorized_body A), calls = [], store_after = S\<rparr>"
    and "router_delete_id A M S ck i =
        \<lparr>reply = send 401 (unauthorized_body A), calls = [], store_after = S\<rparr>"
    by (simp_all add: router_post_id_def router_delete_id_def guard_rejects)
next
  assume a: "map_of ck (cookie_key A) = Some token \<and> verify_token A token = Some user \<and>
    cast_id M i = Inr oid \<and> fault S = None \<and> (\<forall>p \<in> set (potions S). \<not> has_id oid p)"
  then have nf: "find (has_id oid) (potions S) = None"
    by (simp add: find_none_iff)
  have del: "router_delete_id A M S ck i = delete_potion M S i"
    using a by (simp add: router_delete_id_def guard_passes)
  have "findByIdAndDelete M S i = (Resolved None, S)"
    using a nf by (simp add: findByIdAndDelete_def)
  then have d: "delete_potion M S i =
      \<lparr>reply = send 404 (error_body msg_potion_non_trouvee), calls = [FindByIdAndDelete i], store_after = S\<rparr>"
    by (simp add: delete_potion_def)
  show "reply (router_delete_id A M S ck i) = send 404 (error_body msg_potion_non_trouvee)"
    and "store_after (router_delete_id A M S ck i) = S"
    using del d by simp_all
  assume c: "cast_update M payload = Inr upd"
  have upd: "router_post_id A M S ck i payload = update_potion M S i payload"
    using a by (simp add: router_post_id_def guard_passes)
  have "findByIdAndUpdate M S i payload = (Resolved None, S)"
    using a nf c by (simp add: findByIdAndUpdate_def)
  then have u: "update_potion M S i payload =
      \<lparr>reply = send 404 (error_body msg_potion_non_trouvee),
       calls = [FindByIdAndUpdate i payload], store_after = S\<rparr>"
    by (simp add: update_potion_def)
  show "reply (router_post_id A M S ck i payload) = send 404 (error_body msg_potion_non_trouvee)"
    and "store_after (router_post_id A M S ck i payload) = S"
    using upd u by simp_all
next
  assume a: "map_of ck (cookie_key A) = Some token \<and> verify_token A token = Some user \<and>
    cast_id M i = Inl e"
  show "router_delete_id A M S ck i =
        \<lparr>reply = send 500 (error_body (err_message e)), calls = [FindByIdAndDelete i],
         store_after = S\<rparr>"
    using a by (simp add: router_delete_id_def guard_passes delete_potion_def findByIdAndDelete_def)
  show "router_post_id A M S ck i payload =
        \<lparr>reply = send 500 (error_body (err_message e)), calls = [FindByIdAndUpdate i payload],
         store_after = S\<rparr>"
    using a by (simp add: router_post_id_def guard_passes update_potion_def findByIdAndUpdate_def)
next
  assume a: "map_of ck (cookie_key A) = Some token \<and> verify_token A token = Some user \<and>
    cast_id M i = Inr oid \<and> cast_update M payload = Inl e"
  show "router_post_id A M S ck i payload =
        \<lparr>reply = send 500 (error_body (err_message e)), calls = [FindByIdAndUpdate i payload],
         store_after = S\<rparr>"
    using a by (simp add: router_post_id_def guard_passes update_potion_def findByIdAndUpdate_def)
qed

text \<open>
  On the sample catalog: no cookie and a forged cookie; with the session of a user, an
  identifier that no potion has, the malformed identifier \<open>abc\<close>, and an update whose
  price is a document, under the schema that casts the price.
\<close>

theorem update_delete_guarded_witness:
  "no_session sample_auth [] \<and>
   no_session sample_auth [(''demo_node+mongo_token'', ''forged'')] \<and>
   router_post_id sample_auth sample_model sample_store [] ''660bcf5fca6e9f06b8a2eecd'' elixir =
     \<lparr>reply = send 401 (unauthorized_body sample_auth), calls = [], store_after = sample_store\<rparr> \<and>
   router_delete_id sample_auth sample_model sample_store [(''demo_node+mongo_token'', ''forged'')]
       ''660bcf5fca6e9f06b8a2eecd'' =
     \<lparr>reply = send 401 (unauthorized_body sample_auth), calls = [], store_after = sample_store\<rparr> \<and>
   map_of [(''demo_node+mongo_token'', ''signed-token'')] (cookie_key sample_auth) = Some ''signed-token'' \<and>
   cast_id sample_model ''660bcf5fca6e9f06b8a2eec0'' = Inr ''660bcf5fca6e9f06b8a2eec0'' \<and>
   fault sample_store = None \<and>
   cast_update sample_model elixir =
     Inr [(''name'', JStr ''Elixir''), (''price'', JNum 10), (''vendor_id'', JStr ''v1'')] \<and>
   reply (router_delete_id sample_auth sample_model sample_store
            [(''demo_node+mongo_token'', ''signed-token'')] ''660bcf5fca6e9f06b8a2eec0'') =
     send 404 (error_body msg_potion_non_trouvee) \<and>
   reply (router_post_id sample_auth sample_model sample_store
            [(''demo_node+mongo_token'', ''signed-token'')] ''660bcf5fca6e9f06b8a2eec0'' elixir) =
     send 404 (error_body msg_potion_non_trouvee) \<and>
   cast_id sample_model ''abc'' = Inl (cast_error ''abc'') \<and>
   router_delete_id sample_auth sample_model sample_store
       [(''demo_node+mongo_token'', ''signed-token'')] ''abc'' =
     \<lparr>reply = send 500 (error_body (err_message (cast_error ''abc''))),
      calls = [FindByIdAndDelete ''abc''], store_after = sample_store\<rparr> \<and>
   router_post_id sample_auth sample_model sample_store
       [(''demo_node+mongo_token'', ''signed-token'')] ''abc'' elixir =
     \<lparr>reply = send 500 (error_body (err_message (cast_error ''abc''))),
      calls = [FindByIdAndUpdate ''abc'' elixir], store_after = sample_store\<rparr> \<and>
   cast_update priced_model (JObj [(''price'', JObj [])]) = Inl price_cast_error \<and>
   router_post_id sample_auth priced_model sample_store
       [(''demo_node+mongo_token'', ''signed-token'')] ''660bcf5fca6e9f06b8a2eec0''
       (JObj [(''price'', JObj [])]) =
     \<lparr>reply = send 500 (error_body (err_message price_cast_error)),
      calls = [FindByIdAndUpdate ''660bcf5fca6e9f06b8a2eec0'' (JObj [(''price'', JObj [])])],
      store_after = sample_store\<rparr>"
proof -
  have n1: "no_session sample_auth []"
    by (simp add: no_session_def)
  have n2: "no_session sample_auth [(''demo_node+mongo_token'', ''forged'')]"
    by (simp add: no_session_def sample_auth_def)
  have k: "map_of [(''demo_node+mongo_token'', ''signed-token'')] (cookie_key sample_auth) = Some ''signed-token''"
    by (simp add: sample_auth_def)
  have v: "verify_token sample_auth ''signed-token'' =
      Some (JObj [(''id'', JStr ''u1''), (''name'', JStr ''harrypotter'')])"
    by (simp add: sample_auth_def)
  have c: "cast_id sample_model ''660bcf5fca6e9f06b8a2eec0'' = Inr ''660bcf5fca6e9f06b8a2eec0''"
    by (simp add: sample_model_def cast_ObjectId_def is_hex_def lower_hex_def)
  have c': "cast_id priced_model ''660bcf5fca6e9f06b8a2eec0'' = Inr ''660bcf5fca6e9f06b8a2eec0''"
    by (simp add: priced_model_def sample_model_def cast_ObjectId_def is_hex_def lower_hex_def)
  have m: "cast_id sample_model ''abc'' = Inl (cast_error ''abc'')"
    by (simp add: sample_model_def cast_ObjectId_def)
  have f: "fault sample_store = None"
    by (simp add: sample_store_def)
  have a: "\<forall>p \<in> set (potions sample_store). \<not> has_id ''660bcf5fca6e9f06b8a2eec0'' p"
    by (simp add: sample_store_def has_id_def field_def potion_a_def potion_b_def potion_c_def)
  have u: "cast_update sample_model elixir =
     Inr [(''name'', JStr ''Elixir''), (''price'', JNum 10), (''vendor_id'', JStr ''v1'')]"
    by (simp add: sample_model_def any_object_def elixir_def)
  have w: "cast_update priced_model (JObj [(''price'', JObj [])]) = Inl price_cast_error"
    by (simp add: priced_model_def cast_price_def)
  note t1 = update_delete_guarded [where A = sample_auth and ck = "[]" and M = sample_model
      and S = sample_store and i = "''660bcf5fca6e9f06b8a2eecd''" and payload = elixir,
      THEN conjunct1, rule_format, OF n1]
  note t2 = update_delete_guarded [where A = sample_auth
      and ck = "[(''demo_node+mongo_token'', ''forged'')]" and M = sample_model
      and S = sample_store and i = "''660bcf5fca6e9f06b8a2eecd''" and payload = elixir,
      THEN conjunct1, rule_format, OF n2]
  note t3 = update_delete_guarded [where A = sample_auth
      and ck = "[(''demo_node+mongo_token'', ''signed-token'')]" and M = sample_model
      and S = sample_store and i = "''660bcf5fca6e9f06b8a2eec0''" and payload = elixir,
      THEN conjunct2, THEN conjunct1, rule_format, OF conjI [OF k conjI [OF v conjI [OF c conjI [OF f a]]]]]
  note t4 = update_delete_guarded [where A = sample_auth
      and ck = "[(''demo_node+mongo_token'', ''signed-token'')]" and M = sample_model
      and S = sample_store and i = "''abc''" and payload = elixir,
      THEN conjunct2, THEN conjunct2, THEN conjunct1, rule_format, OF conjI [OF k conjI [OF v m]]]
  note t5 = update_delete_guarded [where A = sample_auth
      and ck = "[(''demo_node+mongo_token'', ''signed-token'')]" and M = priced_model
      and S = sample_store and i = "''660bcf5fca6e9f06b8a2eec0''"
      and payload = "JObj [(''price'', JObj [])]",
      THEN conjunct2, THEN conjunct2, THEN conjunct2, rule_format,
      OF conjI [OF k conjI [OF v conjI [OF c' w]]]]
  show ?thesis
    using n1 n2 t1 t2 t3 t4 t5 k c f u m w by simp
qed

text \<open>
  The claim as the spec words it (for every id) fails for an identifier that does not
  cast: no potion has the identifier \<open>abc\<close>, and an authenticated delete and an
  authenticated update of it are answered 500. It fails also for an update that the
  schema does not cast, of an identifier that no potion has.
\<close>

theorem update_delete_malformed_id_is_system_error:
  "status (reply (router_delete_id sample_auth sample_model \<lparr>potions = [], fault = None\<rparr>
      [(''demo_node+mongo_token'', ''signed-token'')] ''abc'')) = 500 \<and>
   status (reply (router_post_id sample_auth sample_model \<lparr>potions = [], fault = None\<rparr>
      [(''demo_node+mongo_token'', ''signed-token'')] ''abc'' elixir)) = 500 \<and>
   status (reply (router_post_id sample_auth priced_model \<lparr>potions = [], fault = None\<rparr>
      [(''demo_node+mongo_token'', ''signed-token'')] ''660bcf5fca6e9f06b8a2eec0''
      (JObj [(''price'', JObj [])]))) = 500"
  by (simp add: router_delete_id_def router_post_id_def authMiddleware_def sample_auth_def
        delete_potion_def update_potion_def findByIdAndDelete_def findByIdAndUpdate_def
        priced_model_def sample_model_def cast_ObjectId_def cast_price_def is_hex_def
        lower_hex_def send_def)

section \<open>Registration: validation of the fields\<close>

lemma name_errors_on_name: "\<forall>e \<in> set (name_errors n). field ''param'' e = Some (JStr ''name'')"
  by (simp add: name_errors_def field_error_def field_def)

lemma password_errors_on_password:
  "\<forall>e \<in> set (password_errors p). field ''param'' e = Some (JStr ''password'')"
  by (simp add: password_errors_def field_error_def field_def)

text \<open>
  Claim C8, as the code has it. The name and the password are trimmed and HTML-escaped,
  and the lengths are taken of the results, as \<open>isLength\<close> counts them: in characters,
  the variation selectors left out. When the sanitized name is empty or not of 3
  to 30 characters, or the sanitized password is empty or shorter than 6 characters, the
  response is status 400 with the list of the field errors, those of the name before
  those of the password, every one naming its field, and the store is not called. A
  failing name has at least one error on \<open>name\<close>, a failing password at least one on
  \<open>password\<close>.
\<close>

theorem register_field_errors:
  assumes "n = sanitize_field bn" and "p = sanitize_field bp"
    and "n = [] \<or> char_count n < 3 \<or> 30 < char_count n \<or> p = [] \<or> char_count p < 6"
  shows "auth_post_register U C bn bp =
           \<lparr>reply = send 400 (JObj [(''errors'', JArr (name_errors n @ password_errors p))]),
            calls = [], store_after = C\<rparr> \<and>
         name_errors n @ password_errors p \<noteq> [] \<and>
         (\<forall>e \<in> set (name_errors n). field ''param'' e = Some (JStr ''name'')) \<and>
         (\<forall>e \<in> set (password_errors p). field ''param'' e = Some (JStr ''password'')) \<and>
         (n = [] \<or> char_count n < 3 \<or> 30 < char_count n \<longrightarrow> name_errors n \<noteq> []) \<and>
         (p = [] \<or> char_count p < 6 \<longrightarrow> password_errors p \<noteq> [])"
proof -
  have ne: "n = [] \<or> char_count n < 3 \<or> 30 < char_count n \<Longrightarrow> name_errors n \<noteq> []"
    by (auto simp: name_errors_def)
  have pe: "p = [] \<or> char_count p < 6 \<Longrightarrow> password_errors p \<noteq> []"
    by (auto simp: password_errors_def)
  have some: "name_errors n @ password_errors p \<noteq> []"
    using assms(3) ne pe by auto
  then have "auth_post_register U C bn bp =
           \<lparr>reply = send 400 (JObj [(''errors'', JArr (name_errors n @ password_errors p))]),
            calls = [], store_after = C\<rparr>"
    using assms(1,2) by (simp add: auth_post_register_def Let_def)
  then show ?thesis
    using some ne pe name_errors_on_name password_errors_on_password by blast
qed

lemma sanitize_short:
  "sanitize_field (Some '' ab '') = ''ab''"
  "sanitize_field (Some ''12345'') = ''12345''"
  "sanitize_field (Some ''<>'') = ''&lt;&gt;''"
  "sanitize_field (Some ''secret1'') = ''secret1''"
  "sanitize_field (Some (''ab'' @ [CHR 0xEF, CHR 0xB8, CHR 0x8F])) = ''ab'' @ [CHR 0xEF, CHR 0xB8, CHR 0x8F]"
  by (simp_all add: sanitize_field_def trim_def ltrim.simps rtrim.simps escape_def escape_char_def
        ws_start_def ws_end_def is_ws_def)

text \<open>
  A name of 2 characters between spaces with a password of 5 characters; and a name of 2
  characters followed by the variation selector U+FE0F, which \<open>isLength\<close> does not count,
  with a password of 7 characters.
\<close>

theorem register_field_errors_witness:
  "''ab'' = sanitize_field (Some '' ab '') \<and> ''12345'' = sanitize_field (Some ''12345'') \<and>
   char_count ''ab'' < 3 \<and> char_count ''12345'' < 6 \<and>
   auth_post_register sample_users sample_credentials (Some '' ab '') (Some ''12345'') =
     \<lparr>reply = send 400 (JObj [(''errors'',
         JArr [field_error ''ab'' msg_entre_3_et_30 ''name'',
               field_error ''12345'' msg_minimum_6 ''password''])]),
      calls = [], store_after = sample_credentials\<rparr> \<and>
   ''ab'' @ [CHR 0xEF, CHR 0xB8, CHR 0x8F] =
     sanitize_field (Some (''ab'' @ [CHR 0xEF, CHR 0xB8, CHR 0x8F])) \<and>
   ''secret1'' = sanitize_field (Some ''secret1'') \<and>
   char_count (''ab'' @ [CHR 0xEF, CHR 0xB8, CHR 0x8F]) = 2 \<and>
   auth_post_register sample_users sample_credentials
       (Some (''ab'' @ [CHR 0xEF, CHR 0xB8, CHR 0x8F])) (Some ''secret1'') =
     \<lparr>reply = send 400 (JObj [(''errors'',
         JArr [field_error (''ab'' @ [CHR 0xEF, CHR 0xB8, CHR 0x8F]) msg_entre_3_et_30 ''name''])]),
      calls = [], store_after = sample_credentials\<rparr>"
proof -
  let ?n = "''ab'' @ [CHR 0xEF, CHR 0xB8, CHR 0x8F]"
  have s: "''ab'' = sanitize_field (Some '' ab '')" "''12345'' = sanitize_field (Some ''12345'')"
    by (simp_all add: sanitize_short)
  have c: "char_count ''ab'' < 3" "char_count ''12345'' < 6"
    by (simp_all add: char_count_def code_points_def)
  have h: "''ab'' = [] \<or> char_count ''ab'' < 3 \<or> 30 < char_count ''ab'' \<or> ''12345'' = [] \<or>
      char_count ''12345'' < 6"
    using c by simp
  have e: "name_errors ''ab'' @ password_errors ''12345'' =
      [field_error ''ab'' msg_entre_3_et_30 ''name'', field_error ''12345'' msg_minimum_6 ''password'']"
    by (simp add: name_errors_def password_errors_def char_count_def code_points_def)
  have s': "?n = sanitize_field (Some ?n)" "''secret1'' = sanitize_field (Some ''secret1'')"
    using sanitize_short by simp_all
  have c': "char_count ?n = 2"
    by (simp add: char_count_def code_points_def)
  have h': "?n = [] \<or> char_count ?n < 3 \<or> 30 < char_count ?n \<or> ''secret1'' = [] \<or>
      char_count ''secret1'' < 6"
    using c' by simp
  have e': "name_errors ?n @ password_errors ''secret1'' = [field_error ?n msg_entre_3_et_30 ''name'']"
    using c' by (simp add: name_errors_def password_errors_def char_count_def code_points_def)
  have r1: "auth_post_register sample_users sample_credentials (Some '' ab '') (Some ''12345'') =
     \<lparr>reply = send 400 (JObj [(''errors'',
         JArr [field_error ''ab'' msg_entre_3_et_30 ''name'',
               field_error ''12345'' msg_minimum_6 ''password''])]),
      calls = [], store_after = sample_credentials\<rparr>"
    using register_field_errors [OF s h, of sample_users sample_credentials]
    unfolding e by blast
  have r2: "auth_post_register sample_users sample_credentials (Some ?n) (Some ''secret1'') =
     \<lparr>reply = send 400 (JObj [(''errors'', JArr [field_error ?n msg_entre_3_et_30 ''name''])]),
      calls = [], store_after = sample_credentials\<rparr>"
    using register_field_errors [OF s' h', of sample_users sample_credentials]
    unfolding e' by blast
  show ?thesis
    using s c s' c' r1 r2 by blast
qed

text \<open>
  A name of 31 characters of which one is a variation selector has the length 30 for
  \<open>isLength\<close>, and is accepted.
\<close>

lemma register_selector_not_counted:
  "code_points (''aaaaaaaaaaaaaaaaaaaaaaaaaaaaaa'' @ [CHR 0xEF, CHR 0xB8, CHR 0x8E]) = 31 \<and>
   char_count (''aaaaaaaaaaaaaaaaaaaaaaaaaaaaaa'' @ [CHR 0xEF, CHR 0xB8, CHR 0x8E]) = 30 \<and>
   name_errors (''aaaaaaaaaaaaaaaaaaaaaaaaaaaaaa'' @ [CHR 0xEF, CHR 0xB8, CHR 0x8E]) = []"
  by (simp add: name_errors_def char_count_def code_points_def)

text \<open>
  The claim as the spec words it (lengths after trimming) fails: the name \<open><>\<close> has 2
  characters after trimming, its escaped form \<open>&lt;&gt;\<close> has 8, and the registration
  is accepted (201).
\<close>

theorem register_two_escaped_characters_accepted:
  "char_count (trim ''<>'') = 2 \<and>
   status (reply (auth_post_register sample_users sample_credentials (Some ''<>'') (Some ''secret1''))) = 201"
proof -
  have t: "trim ''<>'' = ''<>''"
    by (simp add: trim_def ltrim.simps rtrim.simps ws_start_def ws_end_def is_ws_def)
  have "status (reply (auth_post_register sample_users sample_credentials (Some ''<>'') (Some ''secret1''))) = 201"
    by (simp add: auth_post_register_def sanitize_short name_errors_def password_errors_def
          char_count_def code_points_def save_user_def sample_users_def sample_credentials_def
          harry_def send_def Let_def)
  then show ?thesis
    by (simp add: t char_count_def code_points_def)
qed

end
